theory Spec2Isabelle
  imports Complex_Main "HOL-Library.Log_Nat"
begin

section \<open>The monitoring script \<^verbatim>\<open>src/scripts/monitor.js\<close>\<close>

text \<open>
  The script is embedded function by function. What the script does beyond computing
  values is made explicit:
  \<^item> \<^verbatim>\<open>console.log\<close> appends one structured line to the field \<open>console\<close> of the state;
  \<^item> \<^verbatim>\<open>Math.random()\<close> reads the next value of a random source \<open>rnd :: nat \<Rightarrow> real\<close> and
    counts the call in the field \<open>randoms\<close>;
  \<^item> \<^verbatim>\<open>setInterval\<close> records the callback and its delay in the field \<open>timers\<close>;
  \<^item> reading a property of \<^verbatim>\<open>undefined\<close> is the error \<open>TypeError\<close>; a function that
    raises returns the error alone, without the state it had reached;
  \<^item> \<^verbatim>\<open>new Date()\<close> is a parameter \<open>now\<close>, the time of the call in milliseconds since the
    start of the script.
  A JavaScript number is a double, here the real number it denotes. A product or a sum of
  the script is the exact result rounded to the nearest double, \<open>round_double\<close>;
  comparisons, \<^verbatim>\<open>Math.max\<close>, \<^verbatim>\<open>Math.floor\<close> and \<^verbatim>\<open>toFixed\<close> work on the exact value of their
  doubles.
\<close>

subsection \<open>Values\<close>

datatype error = TypeError

text \<open>
  The three configuration objects are object literals with different sets of
  properties. A property that an object does not have reads as \<^verbatim>\<open>undefined\<close>: \<open>None\<close>.
\<close>

record profile =
  interval :: "nat option"
  alertThreshold :: "real option"
  debugMode :: "bool option"
  verboseLogging :: "bool option"
  metricsEndpoint :: "string option"
  aiEnabled :: "bool option"
  mlModelPath :: "string option"
  cloudProviders :: "string list option"
  predictiveWindow :: "nat option"

definition no_properties :: profile where
  "no_properties =
     \<lparr>interval = None, alertThreshold = None, debugMode = None, verboseLogging = None,
      metricsEndpoint = None, aiEnabled = None, mlModelPath = None, cloudProviders = None,
      predictiveWindow = None\<rparr>"

text \<open>Lines 16--20 and 21--26: the two members of \<^verbatim>\<open>baseConfig\<close>.\<close>

definition production :: profile where
  "production =
     no_properties\<lparr>interval := Some 60000, alertThreshold := Some 80, debugMode := Some False\<rparr>"

definition development :: profile where
  "development =
     no_properties\<lparr>interval := Some 5000, alertThreshold := Some 90, debugMode := Some True,
       verboseLogging := Some True\<rparr>"

text \<open>Lines 30--38.\<close>

definition aiConfig :: profile where
  "aiConfig =
     no_properties\<lparr>interval := Some 30000, alertThreshold := Some 75,
       metricsEndpoint := Some ''http://localhost:9000/metrics'', aiEnabled := Some True,
       mlModelPath := Some ''./models/anomaly-detection.h5'',
       cloudProviders := Some [''aws'', ''azure'', ''gcp''], predictiveWindow := Some 300\<rparr>"

text \<open>
  \<^verbatim>\<open>baseConfig[ENV]\<close> is a property lookup on an ordinary object: besides its own two keys
  the object answers for the keys it inherits from \<^verbatim>\<open>Object.prototype\<close>, with a function
  or object that has none of the configuration's properties; any other key gives
  \<^verbatim>\<open>undefined\<close>.
\<close>

definition Object_prototype_keys :: "string list" where
  "Object_prototype_keys =
     [''constructor'', ''__defineGetter__'', ''__defineSetter__'', ''hasOwnProperty'',
      ''__lookupGetter__'', ''__lookupSetter__'', ''isPrototypeOf'', ''propertyIsEnumerable'',
      ''toString'', ''valueOf'', ''__proto__'', ''toLocaleString'']"

definition baseConfig :: "string \<Rightarrow> profile option" where
  "baseConfig key =
     (if key = ''production'' then Some production
      else if key = ''development'' then Some development
      else if key \<in> set Object_prototype_keys then Some no_properties
      else None)"

text \<open>
  Line 11: \<^verbatim>\<open>process.env.NODE_ENV || 'production'\<close>; an unset variable and the empty string
  are falsy. Line 12: \<^verbatim>\<open>process.env.AI_MODE === 'true'\<close>. Line 41: the selection.
\<close>

definition ENV_of :: "string option \<Rightarrow> string" where
  "ENV_of NODE_ENV =
     (case NODE_ENV of None \<Rightarrow> ''production'' | Some v \<Rightarrow> if v = [] then ''production'' else v)"

definition AI_MODE_of :: "string option \<Rightarrow> bool" where
  "AI_MODE_of var = (var = Some ''true'')"

definition select_config :: "bool \<Rightarrow> string \<Rightarrow> profile option" where
  "select_config ai env = (if ai then Some aiConfig else baseConfig env)"

subsection \<open>Numbers\<close>

text \<open>
  IEEE 754 binary64, rounding to nearest with ties to even. A positive \<open>x\<close> lies in the
  binade \<open>2^e \<le> x < 2^(e+1)\<close> with \<open>e = exponent x\<close>; the doubles there are the multiples
  of \<open>ulp x = 2^(e-52)\<close>, and below \<open>2^-1022\<close> (the subnormal numbers) the multiples of
  \<open>2^-1074\<close>. \<open>round_double x\<close> is the multiple of \<open>ulp\<close> nearest to \<open>x\<close>, the even one of
  two. A result of magnitude \<open>2^1024\<close> stands for the code's \<^verbatim>\<open>Infinity\<close>; the numbers of the
  script stay below 1000.
\<close>

definition round_half_even :: "real \<Rightarrow> int" where
  "round_half_even z =
     (let n = \<lfloor>z\<rfloor>; f = z - of_int n
      in if f < 1 / 2 then n else if 1 / 2 < f then n + 1 else if even n then n else n + 1)"

definition exponent :: "real \<Rightarrow> int" where
  "exponent x = (if 1 \<le> x then bitlen \<lfloor>x\<rfloor> - 1 else - bitlen (\<lceil>1 / x\<rceil> - 1))"

definition ulp :: "real \<Rightarrow> real" where
  "ulp x = 2 powi (max (exponent x) (- 1022) - 52)"

definition round_double :: "real \<Rightarrow> real" where
  "round_double x =
     (if x = 0 then 0
      else sgn x * of_int (round_half_even (\<bar>x\<bar> / ulp \<bar>x\<bar>)) * ulp \<bar>x\<bar>)"

text \<open>The finite doubles: the numbers that rounding leaves as they are.\<close>

definition is_double :: "real \<Rightarrow> bool" where
  "is_double x \<longleftrightarrow> round_double x = x \<and> \<bar>x\<bar> < 2 ^ 1024"

text \<open>The operators \<^verbatim>\<open>*\<close> and \<^verbatim>\<open>+\<close> on doubles.\<close>

definition js_times :: "real \<Rightarrow> real \<Rightarrow> real" where
  "js_times x y = round_double (x * y)"

definition js_plus :: "real \<Rightarrow> real \<Rightarrow> real" where
  "js_plus x y = round_double (x + y)"

text \<open>Truthiness of a boolean property, and \<^verbatim>\<open>x > y\<close> where \<open>y\<close> may be \<^verbatim>\<open>undefined\<close>.\<close>

fun truthy :: "bool option \<Rightarrow> bool" where
  "truthy None = False"
| "truthy (Some b) = b"

fun js_gt :: "real \<Rightarrow> real option \<Rightarrow> bool" where
  "js_gt x None = False"
| "js_gt x (Some y) = (y < x)"

text \<open>
  \<^verbatim>\<open>x.toFixed(d)\<close>: the number that the returned decimal string denotes, the multiple of
  \<open>10^-d\<close> nearest to \<open>x\<close>, the larger one of two; the sign is set aside first. From
  \<open>10^21\<close> on the method returns the number's own string.
\<close>

definition toFixed :: "nat \<Rightarrow> real \<Rightarrow> real" where
  "toFixed d x =
     (if 10 ^ 21 \<le> \<bar>x\<bar> then x
      else if x < 0 then - (of_int \<lfloor>- x * 10 ^ d + 1 / 2\<rfloor> / 10 ^ d)
      else of_int \<lfloor>x * 10 ^ d + 1 / 2\<rfloor> / 10 ^ d)"

text \<open>\<^verbatim>\<open>toUpperCase\<close> on ASCII letters, and \<^verbatim>\<open>join\<close>.\<close>

definition upper_char :: "char \<Rightarrow> char" where
  "upper_char c =
     (let n = (of_char c :: nat) in if 97 \<le> n \<and> n \<le> 122 then char_of (n - 32) else c)"

definition toUpperCase :: "string \<Rightarrow> string" where
  "toUpperCase s = map upper_char s"

fun join :: "string \<Rightarrow> string list \<Rightarrow> string" where
  "join sep [] = []"
| "join sep [x] = x"
| "join sep (x # y # ys) = x @ sep @ join sep (y # ys)"

subsection \<open>Output lines and the state\<close>

text \<open>
  One constructor for each \<^verbatim>\<open>console.log\<close> of the script, with the values the line
  interpolates. A number printed through \<^verbatim>\<open>toFixed\<close> is carried as \<open>toFixed\<close> gives it.
\<close>

datatype log_line =
    Banner_rule                       \<comment> \<open>lines 44, 48\<close>
  | Banner_title                      \<comment> \<open>line 45\<close>
  | Banner_environment string         \<comment> \<open>line 46\<close>
  | Banner_ai_mode bool               \<comment> \<open>line 47: ENABLED or DISABLED\<close>
  | Monitoring_every "nat option"     \<comment> \<open>line 135\<close>
  | Basic_header nat                  \<comment> \<open>line 53, with the time stamp\<close>
  | Cpu_normal                        \<comment> \<open>line 55\<close>
  | Memory_normal                     \<comment> \<open>line 56\<close>
  | Disk_adequate                     \<comment> \<open>line 57\<close>
  | Hot_reload_active                 \<comment> \<open>line 60\<close>
  | Debug_port                        \<comment> \<open>line 61\<close>
  | Status_HEALTHY                    \<comment> \<open>line 64\<close>
  | AI_header nat                     \<comment> \<open>line 70, with the time stamp\<close>
  | AI_monitoring_active              \<comment> \<open>line 72\<close>
  | Model "string option"             \<comment> \<open>line 73\<close>
  | Predictive_window "nat option"    \<comment> \<open>line 74\<close>
  | Clouds string                     \<comment> \<open>line 75\<close>
  | Cloud_status string               \<comment> \<open>line 78\<close>
  | Instances int                     \<comment> \<open>line 79\<close>
  | Load real                         \<comment> \<open>line 80\<close>
  | Health bool                       \<comment> \<open>line 81: HEALTHY or DEGRADED\<close>
  | Resource_usage                    \<comment> \<open>line 88\<close>
  | Cpu real                          \<comment> \<open>line 89\<close>
  | Memory real                       \<comment> \<open>line 90\<close>
  | Disk real                         \<comment> \<open>line 91\<close>
  | ALERT                             \<comment> \<open>line 96\<close>
  | Auto_scaling_triggered            \<comment> \<open>line 97\<close>
  | Status_OPTIMAL                    \<comment> \<open>line 99\<close>
  | Predictive_analysis               \<comment> \<open>line 107\<close>
  | Analyzing_trends                  \<comment> \<open>line 108\<close>
  | Forecast_cpu real real            \<comment> \<open>line 117: value and confidence\<close>
  | Forecast_memory real real         \<comment> \<open>line 118\<close>
  | Forecast_traffic real real        \<comment> \<open>line 119\<close>
  | Predictive_alert                  \<comment> \<open>line 122\<close>
  | Retraining                        \<comment> \<open>line 142\<close>
  | Training_accuracy                 \<comment> \<open>line 143\<close>
  | Model_updated                     \<comment> \<open>line 144\<close>

datatype callback = CheckSystemHealth | Retrain

text \<open>
  The globals \<^verbatim>\<open>ENV\<close>, \<^verbatim>\<open>AI_MODE\<close> and \<^verbatim>\<open>config\<close>, the output so far (oldest line first),
  the number of calls of \<^verbatim>\<open>Math.random\<close> so far, and the timers in the order of their
  registration.
\<close>

record state =
  ENV :: string
  AI_MODE :: bool
  config :: "profile option"
  console :: "log_line list"
  randoms :: nat
  timers :: "(callback \<times> nat option) list"

type_synonym random_source = "nat \<Rightarrow> real"

definition console_log :: "log_line \<Rightarrow> state \<Rightarrow> state" where
  "console_log l s = s\<lparr>console := console s @ [l]\<rparr>"

definition Math_random :: "random_source \<Rightarrow> state \<Rightarrow> real \<times> state" where
  "Math_random rnd s = (rnd (randoms s), s\<lparr>randoms := Suc (randoms s)\<rparr>)"

definition setInterval :: "callback \<Rightarrow> nat option \<Rightarrow> state \<Rightarrow> state" where
  "setInterval cb delay s = s\<lparr>timers := timers s @ [(cb, delay)]\<rparr>"

subsection \<open>The health checks\<close>

text \<open>
  Lines 51--65. The time stamp of line 52 is the parameter \<open>now\<close>. Line 59 reads a
  property of \<^verbatim>\<open>config\<close>.
\<close>

definition monitorBasicHealth :: "nat \<Rightarrow> state \<Rightarrow> error + state" where
  "monitorBasicHealth now s0 =
     (let s1 = console_log (Basic_header now) s0;
          s2 = console_log Cpu_normal s1;
          s3 = console_log Memory_normal s2;
          s4 = console_log Disk_adequate s3
      in case config s4 of
           None \<Rightarrow> Inl TypeError
         | Some c \<Rightarrow>
             let s5 = (if truthy (debugMode c)
                       then console_log Debug_port (console_log Hot_reload_active s4)
                       else s4)
             in Inr (console_log Status_HEALTHY s5))"

text \<open>Lines 110--115: the object \<^verbatim>\<open>prediction\<close>; its \<^verbatim>\<open>confidence\<close> is the result of \<^verbatim>\<open>toFixed\<close>.\<close>

record prediction =
  cpu :: real
  memory :: real
  traffic :: real
  confidence :: real

text \<open>Lines 106--124. Line 121 reads a property of \<^verbatim>\<open>config\<close>.\<close>

definition predictFutureMetrics :: "random_source \<Rightarrow> state \<Rightarrow> error + state" where
  "predictFutureMetrics rnd s0 =
     (let s1 = console_log Predictive_analysis s0;
          s2 = console_log Analyzing_trends s1;
          (r1, s3) = Math_random rnd s2;
          (r2, s4) = Math_random rnd s3;
          (r3, s5) = Math_random rnd s4;
          (r4, s6) = Math_random rnd s5;
          p = \<lparr>cpu = js_times r1 100, memory = js_times r2 100, traffic = js_times r3 1000,
               confidence = toFixed 2 (js_plus (js_times r4 30) 70)\<rparr>;
          s7 = console_log (Forecast_cpu (toFixed 2 (cpu p)) (confidence p)) s6;
          s8 = console_log (Forecast_memory (toFixed 2 (memory p)) (confidence p)) s7;
          s9 = console_log (Forecast_traffic (toFixed 0 (traffic p)) (confidence p)) s8
      in case config s9 of
           None \<Rightarrow> Inl TypeError
         | Some c \<Rightarrow>
             if js_gt (cpu p) (alertThreshold c) then Inr (console_log Predictive_alert s9)
             else Inr s9)"

text \<open>
  Lines 77--82: the body of the \<^verbatim>\<open>forEach\<close>, for one cloud. The literal \<^verbatim>\<open>0.1\<close> is the
  double nearest to 1/10.
\<close>

definition cloud_status :: "random_source \<Rightarrow> string \<Rightarrow> state \<Rightarrow> state" where
  "cloud_status rnd cloud s0 =
     (let s1 = console_log (Cloud_status (toUpperCase cloud)) s0;
          (r1, s2) = Math_random rnd s1;
          s3 = console_log (Instances \<lfloor>js_plus (js_times r1 10) 5\<rfloor>) s2;
          (r2, s4) = Math_random rnd s3;
          s5 = console_log (Load (toFixed 2 (js_times r2 100))) s4;
          (r3, s6) = Math_random rnd s5
      in console_log (Health (round_double (1 / 10) < r3)) s6)"

text \<open>
  Lines 68--103. Lines 73--75 read properties of \<^verbatim>\<open>config\<close> and call \<^verbatim>\<open>join\<close> on
  \<^verbatim>\<open>config.cloudProviders\<close>; \<^verbatim>\<open>forEach\<close> is \<open>fold\<close>. Line 95 reads the threshold of the same
  object \<open>c\<close>: nothing in between writes \<^verbatim>\<open>config\<close>.
\<close>

definition monitorAIHealth :: "random_source \<Rightarrow> nat \<Rightarrow> state \<Rightarrow> error + state" where
  "monitorAIHealth rnd now s0 =
     (let s1 = console_log (AI_header now) s0;
          s2 = console_log AI_monitoring_active s1
      in case config s2 of
           None \<Rightarrow> Inl TypeError
         | Some c \<Rightarrow>
             let s3 = console_log (Model (mlModelPath c)) s2;
                 s4 = console_log (Predictive_window (predictiveWindow c)) s3
             in (case cloudProviders c of
                  None \<Rightarrow> Inl TypeError
                | Some clouds \<Rightarrow>
                    let s5 = console_log (Clouds (join '', '' clouds)) s4;
                        s6 = fold (cloud_status rnd) clouds s5;
                        (r1, s7) = Math_random rnd s6;
                        (r2, s8) = Math_random rnd s7;
                        (r3, s9) = Math_random rnd s8;
                        cpu = js_times r1 100;
                        memory = js_times r2 100;
                        disk = js_times r3 100;
                        s10 = console_log Resource_usage s9;
                        s11 = console_log (Cpu (toFixed 2 cpu)) s10;
                        s12 = console_log (Memory (toFixed 2 memory)) s11;
                        s13 = console_log (Disk (toFixed 2 disk)) s12;
                        maxUsage = max cpu (max memory disk);
                        s14 = (if js_gt maxUsage (alertThreshold c)
                               then console_log Auto_scaling_triggered (console_log ALERT s13)
                               else console_log Status_OPTIMAL s13)
                    in predictFutureMetrics rnd s14))"

text \<open>Lines 127--133.\<close>

definition checkSystemHealth :: "random_source \<Rightarrow> nat \<Rightarrow> state \<Rightarrow> error + state" where
  "checkSystemHealth rnd now s =
     (if AI_MODE s then monitorAIHealth rnd now s else monitorBasicHealth now s)"

text \<open>Lines 141--145: the callback of the second timer.\<close>

definition retrain :: "state \<Rightarrow> state" where
  "retrain s = console_log Model_updated (console_log Training_accuracy (console_log Retraining s))"

subsection \<open>The script's top level\<close>

text \<open>
  Lines 11--48 and 135--146, for the two environment variables (\<open>None\<close>: not set):
  \<open>initial_state\<close> is the three globals of lines 11, 12 and 41 with nothing written and
  no timer yet. The first health check, line 137, runs at time \<open>0\<close>. Lines 135 and 140
  read properties of \<^verbatim>\<open>config\<close>.
\<close>

definition initial_state :: "string option \<Rightarrow> string option \<Rightarrow> state" where
  "initial_state NODE_ENV AI_MODE_var =
     \<lparr>ENV = ENV_of NODE_ENV, AI_MODE = AI_MODE_of AI_MODE_var,
      config = select_config (AI_MODE_of AI_MODE_var) (ENV_of NODE_ENV), console = [],
      randoms = 0, timers = []\<rparr>"

definition main :: "random_source \<Rightarrow> string option \<Rightarrow> string option \<Rightarrow> error + state" where
  "main rnd NODE_ENV AI_MODE_var =
     (let s0 = initial_state NODE_ENV AI_MODE_var;
          s1 = console_log Banner_rule s0;
          s2 = console_log Banner_title s1;
          s3 = console_log (Banner_environment (ENV s2)) s2;
          s4 = console_log (Banner_ai_mode (AI_MODE s3)) s3;
          s5 = console_log Banner_rule s4
      in case config s5 of
           None \<Rightarrow> Inl TypeError
         | Some c \<Rightarrow>
             let s6 = console_log (Monitoring_every (interval c)) s5;
                 s7 = setInterval CheckSystemHealth (interval c) s6
             in (case checkSystemHealth rnd 0 s7 of
                  Inl e \<Rightarrow> Inl e
                | Inr s8 \<Rightarrow>
                    (case config s8 of
                       None \<Rightarrow> if AI_MODE s8 then Inl TypeError else Inr s8
                     | Some c' \<Rightarrow>
                         if AI_MODE s8 \<and> truthy (aiEnabled c')
                         then Inr (setInterval Retrain (Some 120000) s8)
                         else Inr s8)))"

subsection \<open>The timers\<close>

text \<open>
  The runtime's \<^verbatim>\<open>setInterval\<close>, on a clock that counts milliseconds from the start of the
  script: a timer of delay \<open>d\<close> calls its callback at \<open>d\<close>, \<open>2d\<close>, \<open>3d\<close>, ...; a delay that
  is no number, below 1 or above \<open>2^31 - 1\<close> counts as 1. Callbacks due at the same time run
  in the order of registration, and an error of a callback ends the run.
\<close>

definition timer_delay :: "nat option \<Rightarrow> nat" where
  "timer_delay d =
     (case d of None \<Rightarrow> 1 | Some n \<Rightarrow> if n < 1 \<or> 2147483647 < n then 1 else n)"

definition due :: "(callback \<times> nat option) list \<Rightarrow> nat \<Rightarrow> callback list" where
  "due ts t = map fst (filter (\<lambda>(cb, d). 0 < t \<and> timer_delay d dvd t) ts)"

definition run_callback :: "random_source \<Rightarrow> nat \<Rightarrow> callback \<Rightarrow> state \<Rightarrow> error + state" where
  "run_callback rnd now cb s =
     (case cb of CheckSystemHealth \<Rightarrow> checkSystemHealth rnd now s | Retrain \<Rightarrow> Inr (retrain s))"

fun run_callbacks :: "random_source \<Rightarrow> nat \<Rightarrow> callback list \<Rightarrow> state \<Rightarrow> error + state" where
  "run_callbacks rnd now [] s = Inr s"
| "run_callbacks rnd now (cb # cbs) s =
     (case run_callback rnd now cb s of
        Inl e \<Rightarrow> Inl e
      | Inr s' \<Rightarrow> run_callbacks rnd now cbs s')"

text \<open>The state when the clock has reached \<open>n\<close>, all callbacks due until then done.\<close>

fun run_until :: "random_source \<Rightarrow> nat \<Rightarrow> state \<Rightarrow> error + state" where
  "run_until rnd 0 s = Inr s"
| "run_until rnd (Suc n) s =
     (case run_until rnd n s of
        Inl e \<Rightarrow> Inl e
      | Inr s' \<Rightarrow> run_callbacks rnd (Suc n) (due (timers s') (Suc n)) s')"

subsection \<open>What the health checks write\<close>

text \<open>
  The lines of one cloud, of a list of clouds, of the resource usage and of the forecast,
  as functions of the random source and of the number \<open>k\<close> of the next random value.
  They are used to state what the functions above do; the lemmas below prove that they
  describe them.
\<close>

definition cloud_lines :: "random_source \<Rightarrow> nat \<Rightarrow> string \<Rightarrow> log_line list" where
  "cloud_lines rnd k cloud =
     [Cloud_status (toUpperCase cloud), Instances \<lfloor>js_plus (js_times (rnd k) 10) 5\<rfloor>,
      Load (toFixed 2 (js_times (rnd (k + 1)) 100)), Health (round_double (1 / 10) < rnd (k + 2))]"

fun clouds_lines :: "random_source \<Rightarrow> nat \<Rightarrow> string list \<Rightarrow> log_line list" where
  "clouds_lines rnd k [] = []"
| "clouds_lines rnd k (cloud # clouds) = cloud_lines rnd k cloud @ clouds_lines rnd (k + 3) clouds"

definition forecast_at :: "random_source \<Rightarrow> nat \<Rightarrow> prediction" where
  "forecast_at rnd k =
     \<lparr>cpu = js_times (rnd k) 100, memory = js_times (rnd (k + 1)) 100, traffic = js_times (rnd (k + 2)) 1000,
      confidence = toFixed 2 (js_plus (js_times (rnd (k + 3)) 30) 70)\<rparr>"

definition forecast_lines :: "prediction \<Rightarrow> real option \<Rightarrow> log_line list" where
  "forecast_lines p threshold =
     [Predictive_analysis, Analyzing_trends,
      Forecast_cpu (toFixed 2 (cpu p)) (confidence p),
      Forecast_memory (toFixed 2 (memory p)) (confidence p),
      Forecast_traffic (toFixed 0 (traffic p)) (confidence p)] @
     (if js_gt (cpu p) threshold then [Predictive_alert] else [])"

definition usage_lines :: "real \<Rightarrow> real \<Rightarrow> real \<Rightarrow> real option \<Rightarrow> log_line list" where
  "usage_lines c m d threshold =
     [Resource_usage, Cpu (toFixed 2 c), Memory (toFixed 2 m), Disk (toFixed 2 d)] @
     (if js_gt (max c (max m d)) threshold then [ALERT, Auto_scaling_triggered]
      else [Status_OPTIMAL])"

definition basic_lines :: "nat \<Rightarrow> profile \<Rightarrow> log_line list" where
  "basic_lines now c =
     [Basic_header now, Cpu_normal, Memory_normal, Disk_adequate] @
     (if truthy (debugMode c) then [Hot_reload_active, Debug_port] else []) @
     [Status_HEALTHY]"

definition ai_lines ::
  "random_source \<Rightarrow> nat \<Rightarrow> nat \<Rightarrow> profile \<Rightarrow> string list \<Rightarrow> log_line list" where
  "ai_lines rnd now k c clouds =
     (let j = k + 3 * length clouds in
      [AI_header now, AI_monitoring_active, Model (mlModelPath c),
       Predictive_window (predictiveWindow c), Clouds (join '', '' clouds)] @
      clouds_lines rnd k clouds @
      usage_lines (js_times (rnd j) 100) (js_times (rnd (j + 1)) 100) (js_times (rnd (j + 2)) 100) (alertThreshold c) @
      forecast_lines (forecast_at rnd (j + 3)) (alertThreshold c))"

text \<open>The state after writing the lines \<open>ls\<close> and drawing \<open>n\<close> random values.\<close>

definition emit :: "log_line list \<Rightarrow> nat \<Rightarrow> state \<Rightarrow> state" where
  "emit ls n s = s\<lparr>console := console s @ ls, randoms := randoms s + n\<rparr>"

text \<open>The time stamps of the health checks in an output, in order.\<close>

definition tick_time :: "log_line \<Rightarrow> nat list" where
  "tick_time l = (case l of Basic_header t \<Rightarrow> [t] | AI_header t \<Rightarrow> [t] | _ \<Rightarrow> [])"

definition tick_times :: "log_line list \<Rightarrow> nat list" where
  "tick_times ls = concat (map tick_time ls)"

definition is_cloud_line :: "log_line \<Rightarrow> bool" where
  "is_cloud_line l =
     (case l of Cloud_status _ \<Rightarrow> True | Instances _ \<Rightarrow> True | Load _ \<Rightarrow> True
      | Health _ \<Rightarrow> True | _ \<Rightarrow> False)"

text \<open>A random source that always gives the same value, for examples.\<close>

definition constant_source :: "real \<Rightarrow> random_source" where
  "constant_source x i = x"

text \<open>The three lines that print a forecast.\<close>

definition is_forecast_line :: "log_line \<Rightarrow> bool" where
  "is_forecast_line l =
     (case l of Forecast_cpu _ _ \<Rightarrow> True | Forecast_memory _ _ \<Rightarrow> True
      | Forecast_traffic _ _ \<Rightarrow> True | _ \<Rightarrow> False)"

text \<open>
  The state of a started script with configuration \<open>c\<close>: the configuration is an object,
  it is \<open>aiConfig\<close> in the AI mode, and the timers are those that lines 136 and 141 set.
\<close>

definition started :: "profile \<Rightarrow> state \<Rightarrow> bool" where
  "started c s \<longleftrightarrow>
     config s = Some c \<and> (AI_MODE s \<longrightarrow> c = aiConfig) \<and>
     timers s = (CheckSystemHealth, interval c) #
                (if AI_MODE s then [(Retrain, Some 120000)] else [])"

section \<open>Properties\<close>

subsection \<open>Rounding to doubles\<close>

lemma exponent_bounds:
  assumes "0 < x"
  shows "2 powi exponent x \<le> x" and "x < 2 powi (exponent x + 1)"
proof -
  show "2 powi exponent x \<le> x"
  proof (cases "1 \<le> x")
    case True
    then have n: "0 < \<lfloor>x\<rfloor>" by simp
    from bitlen_bounds [OF n] have "2 ^ nat (bitlen \<lfloor>x\<rfloor> - 1) \<le> \<lfloor>x\<rfloor>" ..
    then have "(2::real) ^ nat (bitlen \<lfloor>x\<rfloor> - 1) \<le> of_int \<lfloor>x\<rfloor>"
      by (metis of_int_le_iff of_int_numeral of_int_power)
    also have "\<dots> \<le> x" by simp
    finally have "(2::real) ^ nat (bitlen \<lfloor>x\<rfloor> - 1) \<le> x" .
    moreover have "0 \<le> bitlen \<lfloor>x\<rfloor> - 1"
      using n by (simp add: bitlen_alt_def)
    ultimately show ?thesis
      using True by (simp add: exponent_def power_int_nonneg_exp)
  next
    case False
    let ?m = "\<lceil>1 / x\<rceil> - 1"
    from False assms have "1 < 1 / x" by simp
    then have m: "0 < ?m" by linarith
    from bitlen_bounds [OF m] have "?m < 2 ^ nat (bitlen ?m)" ..
    then have "?m + 1 \<le> 2 ^ nat (bitlen ?m)" by simp
    then have "of_int (?m + 1) \<le> (2::real) ^ nat (bitlen ?m)"
      by (metis of_int_le_iff of_int_numeral of_int_power)
    moreover have "1 / x \<le> of_int (?m + 1)" by simp
    ultimately have "1 / x \<le> (2::real) ^ nat (bitlen ?m)" by linarith
    then have "1 / 2 ^ nat (bitlen ?m) \<le> x"
      using assms by (simp add: field_simps)
    moreover have "0 \<le> bitlen ?m" by (rule bitlen_nonneg)
    ultimately show ?thesis
      using False by (simp add: exponent_def power_int_minus_divide power_int_nonneg_exp)
  qed
  show "x < 2 powi (exponent x + 1)"
  proof (cases "1 \<le> x")
    case True
    then have n: "0 < \<lfloor>x\<rfloor>" by simp
    from bitlen_bounds [OF n] have "\<lfloor>x\<rfloor> < 2 ^ nat (bitlen \<lfloor>x\<rfloor>)" ..
    then have "\<lfloor>x\<rfloor> + 1 \<le> 2 ^ nat (bitlen \<lfloor>x\<rfloor>)" by simp
    then have "of_int (\<lfloor>x\<rfloor> + 1) \<le> (2::real) ^ nat (bitlen \<lfloor>x\<rfloor>)"
      by (metis of_int_le_iff of_int_numeral of_int_power)
    moreover have "x < of_int (\<lfloor>x\<rfloor> + 1)" by simp
    ultimately have "x < (2::real) ^ nat (bitlen \<lfloor>x\<rfloor>)" by linarith
    moreover have "0 \<le> bitlen \<lfloor>x\<rfloor>" by (rule bitlen_nonneg)
    ultimately show ?thesis
      using True by (simp add: exponent_def power_int_nonneg_exp)
  next
    case False
    let ?m = "\<lceil>1 / x\<rceil> - 1"
    from False assms have "1 < 1 / x" by simp
    then have m: "0 < ?m" by linarith
    then have b: "1 \<le> bitlen ?m" by (simp add: bitlen_alt_def)
    from bitlen_bounds [OF m] have "2 ^ nat (bitlen ?m - 1) \<le> ?m" ..
    then have "(2::real) ^ nat (bitlen ?m - 1) \<le> of_int ?m"
      by (metis of_int_le_iff of_int_numeral of_int_power)
    moreover have "of_int ?m < 1 / x" by linarith
    ultimately have "(2::real) ^ nat (bitlen ?m - 1) < 1 / x" by linarith
    then have "x < 1 / 2 ^ nat (bitlen ?m - 1)"
      using assms by (simp add: field_simps)
    moreover have "- bitlen ?m + 1 = - (bitlen ?m - 1)" by simp
    ultimately show ?thesis
      using False b
      by (simp only: exponent_def if_False power_int_minus_divide power_int_nonneg_exp)
  qed
qed


lemma pow2_less_imp_less:
  assumes "(2::real) powi a < 2 powi b"
  shows "a < b"
proof (rule ccontr)
  assume "\<not> a < b"
  then have "(2::real) powi b \<le> 2 powi a"
    by (simp add: power_int_increasing)
  with assms show False by simp
qed


lemma exponent_mono:
  assumes "0 < x" and "x \<le> y"
  shows "exponent x \<le> exponent y"
proof (rule ccontr)
  assume "\<not> exponent x \<le> exponent y"
  then have "exponent y + 1 \<le> exponent x" by simp
  then have "(2::real) powi (exponent y + 1) \<le> 2 powi exponent x"
    by (simp add: power_int_increasing)
  moreover from assms have "0 < y" by simp
  ultimately show False
    using exponent_bounds(1) [OF assms(1)] exponent_bounds(2) [OF \<open>0 < y\<close>] assms(2)
    by linarith
qed

lemma round_half_even_of_int [simp]: "round_half_even (of_int n) = n"
  by (simp add: round_half_even_def)

lemma round_half_even_le:
  assumes "z \<le> of_int n"
  shows "round_half_even z \<le> n"
proof (cases "z = of_int n")
  case True
  then show ?thesis by simp
next
  case False
  with assms have "z < of_int n" by simp
  then have "\<lfloor>z\<rfloor> < n" by (simp add: floor_less_iff)
  then show ?thesis
    by (auto simp: round_half_even_def Let_def)
qed

lemma round_half_even_ge:
  assumes "of_int n \<le> z"
  shows "n \<le> round_half_even z"
proof -
  from assms have "n \<le> \<lfloor>z\<rfloor>" by (simp add: le_floor_iff)
  then show ?thesis
    by (auto simp: round_half_even_def Let_def)
qed


lemma ulp_pos: "0 < ulp x"
  by (simp add: ulp_def)

lemma round_double_pos:
  assumes "0 < x"
  shows "round_double x = of_int (round_half_even (x / ulp x)) * ulp x"
  using assms by (simp add: round_double_def)

lemma round_double_nonneg:
  assumes "0 \<le> x"
  shows "0 \<le> round_double x"
proof (cases "x = 0")
  case True
  then show ?thesis by (simp add: round_double_def)
next
  case False
  with assms have x: "0 < x" by simp
  have "of_int 0 \<le> x / ulp x"
    using x ulp_pos [of x] by simp
  then have "0 \<le> round_half_even (x / ulp x)"
    by (rule round_half_even_ge)
  then show ?thesis
    using ulp_pos [of x] by (simp add: round_double_pos [OF x])
qed

lemma ulp_mono:
  assumes "0 < x" and "x \<le> y"
  shows "\<exists>k. ulp y = 2 ^ k * ulp x"
proof -
  let ?a = "max (exponent x) (- 1022) - 52" and ?b = "max (exponent y) (- 1022) - 52"
  have "?a \<le> ?b"
    using exponent_mono [OF assms] by simp
  then have "(2::real) powi ?b = 2 powi (?b - ?a) * 2 powi ?a"
    by (simp add: power_int_add [symmetric])
  moreover have "(2::real) powi (?b - ?a) = 2 ^ nat (?b - ?a)"
    using \<open>?a \<le> ?b\<close> by (simp add: power_int_nonneg_exp)
  ultimately show ?thesis
    unfolding ulp_def by metis
qed

lemma round_double_le:
  assumes "0 < x" and "x \<le> y" and "is_double y"
  shows "round_double x \<le> y"
proof -
  from assms have y: "0 < y" by simp
  from ulp_mono [OF assms(1,2)] obtain k where k: "ulp y = 2 ^ k * ulp x" ..
  let ?n = "round_half_even (y / ulp y)"
  have "y = of_int ?n * ulp y"
    using assms(3) by (simp add: is_double_def round_double_pos [OF y])
  then have yx: "y = of_int (?n * 2 ^ k) * ulp x"
    by (simp add: k)
  then have "y / ulp x = of_int (?n * 2 ^ k)"
    using ulp_pos [of x] by (simp add: field_simps)
  moreover have "x / ulp x \<le> y / ulp x"
    using assms(2) ulp_pos [of x] by (simp add: divide_right_mono)
  ultimately have "round_half_even (x / ulp x) \<le> ?n * 2 ^ k"
    by (simp add: round_half_even_le)
  then have "of_int (round_half_even (x / ulp x)) * ulp x \<le> of_int (?n * 2 ^ k) * ulp x"
    using ulp_pos [of x] by (simp only: mult_le_cancel_right_pos of_int_le_iff)
  then show ?thesis
    using yx by (simp only: round_double_pos [OF assms(1)])
qed


lemma round_double_ge:
  assumes "0 < y" and "y \<le> x" and "is_double y"
  shows "y \<le> round_double x"
proof -
  from assms have x: "0 < x" by simp
  let ?ex = "max (exponent x) (- 1022)" and ?ey = "max (exponent y) (- 1022)"
  have le: "?ey \<le> ?ex"
    using exponent_mono [OF assms(1,2)] by simp
  show ?thesis
  proof (cases "?ey = ?ex")
    case True
    then have u: "ulp x = ulp y" by (simp add: ulp_def)
    let ?n = "round_half_even (y / ulp y)"
    have yn: "y = of_int ?n * ulp y"
      using assms(3) by (simp add: is_double_def round_double_pos [OF assms(1)])
    then have "y / ulp x = of_int ?n"
      using ulp_pos [of y] by (simp add: u field_simps)
    moreover have "y / ulp x \<le> x / ulp x"
      using assms(2) ulp_pos [of x] by (simp add: divide_right_mono)
    ultimately have "?n \<le> round_half_even (x / ulp x)"
      by (simp add: round_half_even_ge)
    then have "of_int ?n * ulp x \<le> of_int (round_half_even (x / ulp x)) * ulp x"
      using ulp_pos [of x] by (simp only: mult_le_cancel_right_pos of_int_le_iff)
    then show ?thesis
      using yn by (simp only: round_double_pos [OF x] u)
  next
    case False
    with le have lt: "?ey < ?ex" by linarith
    then have ex: "?ex = exponent x" by (simp add: max_def split: if_splits)
    have "(2::real) powi 52 * ulp x = 2 powi exponent x"
      by (simp add: ulp_def ex power_int_add [symmetric] del: power_int_numeral)
    then have "of_int (2 ^ 52) * ulp x \<le> x"
      using exponent_bounds(1) [OF x] by simp
    then have "of_int (2 ^ 52) \<le> x / ulp x"
      using ulp_pos [of x] by (simp add: field_simps)
    then have "2 ^ 52 \<le> round_half_even (x / ulp x)"
      by (rule round_half_even_ge)
    then have "of_int (2 ^ 52) * ulp x \<le> of_int (round_half_even (x / ulp x)) * ulp x"
      using ulp_pos [of x] by (simp only: mult_le_cancel_right_pos of_int_le_iff)
    then have "2 powi exponent x \<le> round_double x"
      using \<open>(2::real) powi 52 * ulp x = 2 powi exponent x\<close>
      by (simp add: round_double_pos [OF x])
    moreover have "exponent y + 1 \<le> exponent x"
      using lt ex by linarith
    then have "(2::real) powi (exponent y + 1) \<le> 2 powi exponent x"
      by (simp add: power_int_increasing)
    ultimately show ?thesis
      using exponent_bounds(2) [OF assms(1)] by linarith
  qed
qed


lemma divide_by_inverse:
  fixes a b u m :: real
  assumes "a * (b * u) = 1" and "0 < b" and "0 < u"
  shows "m / b / u = m * a"
proof -
  from assms have "a = 1 / (b * u)"
    by (simp add: field_simps)
  then show ?thesis by simp
qed

lemma is_double_dyadic:
  assumes "0 < m" and "m < 2 ^ 53" and "k \<le> 1074"
  shows "is_double (of_int m / 2 ^ k)"
proof -
  let ?x = "of_int m / 2 ^ k :: real"
  have x: "0 < ?x" using assms(1) by simp
  let ?e = "max (exponent ?x) (- 1022)"
  have "2 powi exponent ?x \<le> ?x" by (rule exponent_bounds(1) [OF x])
  also have "?x < 2 ^ 53 / 2 ^ k"
    using assms(2) by (simp add: divide_strict_right_mono)
  also have "\<dots> = (2::real) powi (53 - int k)"
    by (simp add: power_int_diff)
  finally have "exponent ?x < 53 - int k"
    by (rule pow2_less_imp_less)
  with assms(3) have e: "?e \<le> 52 - int k" by simp
  have "(2::real) powi (52 - int k - ?e) * (2 powi int k * 2 powi (?e - 52)) = 1"
    by (simp add: power_int_add [symmetric] del: power_int_of_nat)
  then have inv: "2 powi (52 - int k - ?e) * (2 ^ k * ulp ?x) = 1"
    by (simp add: ulp_def)
  have scaled: "?x / ulp ?x = of_int m * 2 powi (52 - int k - ?e)"
    by (rule divide_by_inverse [OF inv]) (simp_all add: ulp_pos)
  note scaled
  also have "\<dots> = of_int (m * 2 ^ nat (52 - int k - ?e))"
    using e by (simp add: power_int_nonneg_exp)
  finally have "round_half_even (?x / ulp ?x) = m * 2 ^ nat (52 - int k - ?e)"
    by (simp only: round_half_even_of_int)
  then have "round_double ?x = of_int (m * 2 ^ nat (52 - int k - ?e)) * ulp ?x"
    by (simp only: round_double_pos [OF x])
  also have "\<dots> = of_int m * 2 powi (52 - int k - ?e) * ulp ?x"
    using e by (simp add: power_int_nonneg_exp)
  also have "\<dots> = ?x / ulp ?x * ulp ?x"
    by (simp only: scaled)
  also have "\<dots> = ?x"
    using ulp_pos [of ?x] by simp
  finally have fixed: "round_double ?x = ?x" .
  have "?x \<le> of_int m"
    using assms(1) by (simp add: field_simps mult_le_cancel_left1)
  also have "\<dots> < 2 ^ 53"
    using assms(2) by (metis of_int_less_iff of_int_numeral of_int_power)
  also have "(2::real) ^ 53 \<le> 2 ^ 1024"
    by (rule power_increasing) simp_all
  finally have "\<bar>?x\<bar> < 2 ^ 1024"
    using x by (simp only: abs_of_pos)
  with fixed show ?thesis
    by (simp only: is_double_def simp_thms)
qed

lemma is_double_int:
  assumes "0 < m" and "m < 2 ^ 53"
  shows "is_double (of_int m)"
  using is_double_dyadic [OF assms, of 0] by simp



lemma round_double_zero [simp]: "round_double 0 = 0"
  by (simp add: round_double_def)

lemma round_double_dyadic:
  assumes "0 < m" and "m < 2 ^ 53" and "k \<le> 1074"
    and "x = of_int m / 2 ^ k" and "y = of_int m / 2 ^ k"
  shows "round_double x = y"
  using is_double_dyadic [OF assms(1,2,3)] assms(4,5) by (simp add: is_double_def)

lemma round_double_upper:
  assumes "0 \<le> x" and "x \<le> y" and "is_double y"
  shows "round_double x \<le> y"
proof (cases "x = 0")
  case True
  with assms show ?thesis by simp
next
  case False
  with assms(1) have "0 < x" by simp
  then show ?thesis using assms(2,3) by (rule round_double_le)
qed

lemma small_doubles:
  "is_double 5" "is_double 8" "is_double 30" "is_double 64" "is_double 70" "is_double 100"
  using is_double_int [of 5] is_double_int [of 8] is_double_int [of 30] is_double_int [of 64]
    is_double_int [of 70] is_double_int [of 100]
  by simp_all






lemma confidence_value_range:
  assumes "0 \<le> r" and "r < 1"
  shows "70 \<le> js_plus (js_times r 30) 70" and "js_plus (js_times r 30) 70 \<le> 100"
proof -
  have "0 \<le> r * 30" "r * 30 \<le> 30" using assms by simp_all
  then have b: "0 \<le> js_times r 30" "js_times r 30 \<le> 30"
    by (simp_all add: js_times_def round_double_nonneg round_double_upper small_doubles)
  show "70 \<le> js_plus (js_times r 30) 70"
    unfolding js_plus_def using b(1) by (intro round_double_ge small_doubles) simp_all
  show "js_plus (js_times r 30) 70 \<le> 100"
    unfolding js_plus_def using b by (intro round_double_upper small_doubles) simp_all
qed

lemma toFixed_2_range:
  assumes "lo \<le> x" and "x \<le> hi" and "0 \<le> lo" and "hi \<le> 100"
    and "lo * 100 \<in> \<int>" and "hi * 100 \<in> \<int>"
  shows "lo \<le> toFixed 2 x" and "toFixed 2 x \<le> hi"
proof -
  from assms(5) obtain a where a: "lo * 100 = of_int a" by (auto elim: Ints_cases)
  from assms(6) obtain b where b: "hi * 100 = of_int b" by (auto elim: Ints_cases)
  let ?n = "\<lfloor>x * 10 ^ 2 + 1 / 2\<rfloor>"
  from assms have small: "\<not> 10 ^ 21 \<le> \<bar>x\<bar>" and pos: "\<not> x < 0" by simp_all
  have tf: "toFixed 2 x = of_int ?n / 10 ^ 2"
    using small pos by (simp add: toFixed_def)
  have "of_int a \<le> x * 10 ^ 2 + 1 / 2"
    using assms(1) a by simp
  then have "a \<le> ?n" by (simp add: le_floor_iff)
  then have "(of_int a :: real) \<le> of_int ?n" by (simp only: of_int_le_iff)
  then show "lo \<le> toFixed 2 x"
    unfolding tf using a by (simp add: field_simps)
  have "x * 10 ^ 2 + 1 / 2 < of_int (b + 1)"
    using assms(2) b by simp
  then have "?n < b + 1" by (simp only: floor_less_iff)
  then have "?n \<le> b" by simp
  then have "(of_int ?n :: real) \<le> of_int b" by (simp only: of_int_le_iff)
  then show "toFixed 2 x \<le> hi"
    unfolding tf using b by (simp add: field_simps)
qed

subsection \<open>The functions, line by line\<close>

lemma emit_fields [simp]:
  "console (emit ls n s) = console s @ ls" "randoms (emit ls n s) = randoms s + n"
  "config (emit ls n s) = config s" "AI_MODE (emit ls n s) = AI_MODE s"
  "ENV (emit ls n s) = ENV s" "timers (emit ls n s) = timers s"
  by (simp_all add: emit_def)

lemma emit_emit: "emit ls' n' (emit ls n s) = emit (ls @ ls') (n + n') s"
  by (simp add: emit_def)

lemma console_log_emit: "console_log l s = emit [l] 0 s"
  by (simp add: console_log_def emit_def)

lemma Math_random_emit: "Math_random rnd s = (rnd (randoms s), emit [] 1 s)"
  by (simp add: Math_random_def emit_def)

lemma cloud_status_emit: "cloud_status rnd cloud s = emit (cloud_lines rnd (randoms s) cloud) 3 s"
  by (simp add: cloud_status_def cloud_lines_def console_log_emit Math_random_emit emit_emit)

lemma fold_cloud_status_emit:
  "fold (cloud_status rnd) clouds s =
     emit (clouds_lines rnd (randoms s) clouds) (3 * length clouds) s"
proof (induction clouds arbitrary: s)
  case Nil
  show ?case by (simp add: emit_def)
next
  case (Cons cloud clouds)
  have "fold (cloud_status rnd) (cloud # clouds) s =
        fold (cloud_status rnd) clouds (cloud_status rnd cloud s)"
    by simp
  also have "\<dots> = emit (clouds_lines rnd (randoms (cloud_status rnd cloud s)) clouds)
                       (3 * length clouds) (cloud_status rnd cloud s)"
    by (rule Cons.IH)
  also have "\<dots> = emit (clouds_lines rnd (randoms s) (cloud # clouds))
                       (3 * length (cloud # clouds)) s"
    by (simp add: cloud_status_emit emit_emit)
  finally show ?case .
qed

lemma predictFutureMetrics_emit:
  assumes "config s = Some c"
  shows "predictFutureMetrics rnd s =
    Inr (emit (forecast_lines (forecast_at rnd (randoms s)) (alertThreshold c)) 4 s)"
  using assms
  by (simp add: predictFutureMetrics_def forecast_lines_def forecast_at_def console_log_emit
      Math_random_emit emit_emit eval_nat_numeral)

lemma monitorBasicHealth_emit:
  assumes "config s = Some c"
  shows "monitorBasicHealth now s = Inr (emit (basic_lines now c) 0 s)"
  using assms
  by (simp add: monitorBasicHealth_def basic_lines_def console_log_emit emit_emit)

lemma monitorAIHealth_emit:
  assumes "config s = Some c" and "cloudProviders c = Some clouds"
  shows "monitorAIHealth rnd now s =
    Inr (emit (ai_lines rnd now (randoms s) c clouds) (3 * length clouds + 7) s)"
  using assms
  by (simp add: monitorAIHealth_def ai_lines_def usage_lines_def console_log_emit
      Math_random_emit emit_emit fold_cloud_status_emit predictFutureMetrics_emit Let_def
      eval_nat_numeral)

lemma main_emit:
  assumes "select_config (AI_MODE_of v) (ENV_of e) = Some c"
    and "AI_MODE_of v \<longrightarrow> c = aiConfig"
  shows "main rnd e v =
    Inr ((emit ([Banner_rule, Banner_title, Banner_environment (ENV_of e),
                Banner_ai_mode (AI_MODE_of v), Banner_rule, Monitoring_every (interval c)] @
               (if AI_MODE_of v then ai_lines rnd 0 0 c [''aws'', ''azure'', ''gcp'']
                else basic_lines 0 c))
           (if AI_MODE_of v then 16 else 0) (initial_state e v))
         \<lparr>timers := (CheckSystemHealth, interval c) #
            (if AI_MODE_of v then [(Retrain, Some 120000)] else [])\<rparr>)"
proof (cases "AI_MODE_of v")
  case True
  with assms have c: "c = aiConfig" by simp
  have cp: "cloudProviders aiConfig = Some [''aws'', ''azure'', ''gcp'']"
    and ae: "aiEnabled aiConfig = Some True"
    by (simp_all add: aiConfig_def no_properties_def)
  show ?thesis
    using True assms(1) cp ae
    by (simp add: main_def c initial_state_def console_log_emit emit_emit setInterval_def
        checkSystemHealth_def
        monitorAIHealth_emit [where c = aiConfig and clouds = "[''aws'', ''azure'', ''gcp'']"]
        emit_def)
next
  case False
  show ?thesis
    using False assms(1)
    by (simp add: main_def initial_state_def console_log_emit emit_emit setInterval_def
        checkSystemHealth_def monitorBasicHealth_emit [where c = c] emit_def)
qed

subsection \<open>Which lines a health check of the AI mode contains\<close>

lemma clouds_lines_are_cloud_lines:
  "l \<in> set (clouds_lines rnd k clouds) \<Longrightarrow> is_cloud_line l"
  by (induction clouds arbitrary: k) (auto simp: cloud_lines_def is_cloud_line_def)

lemma not_in_clouds_lines: "\<not> is_cloud_line l \<Longrightarrow> l \<notin> set (clouds_lines rnd k clouds)"
  using clouds_lines_are_cloud_lines by blast

lemma other_lines_not_cloud [simp]:
  "\<not> is_cloud_line ALERT" "\<not> is_cloud_line Auto_scaling_triggered"
  "\<not> is_cloud_line Status_OPTIMAL" "\<not> is_cloud_line Predictive_alert"
  "\<not> is_cloud_line Predictive_analysis" "\<not> is_cloud_line Resource_usage"
  "\<not> is_cloud_line (AI_header t)" "\<not> is_cloud_line (Basic_header t)"
  "\<not> is_cloud_line Retraining" "\<not> is_cloud_line Status_HEALTHY"
  "\<not> is_cloud_line (Forecast_cpu v w)" "\<not> is_cloud_line (Forecast_memory v w)"
  "\<not> is_cloud_line (Forecast_traffic v w)"
  by (simp_all add: is_cloud_line_def)

lemma ALERT_in_ai_lines:
  "ALERT \<in> set (ai_lines rnd now k c clouds) \<longleftrightarrow>
     js_gt (max (js_times (rnd (k + 3 * length clouds)) 100)
              (max (js_times (rnd (k + 3 * length clouds + 1)) 100)
                 (js_times (rnd (k + 3 * length clouds + 2)) 100))) (alertThreshold c)"
  by (simp add: ai_lines_def usage_lines_def forecast_lines_def Let_def not_in_clouds_lines)

lemma Auto_scaling_in_ai_lines:
  "Auto_scaling_triggered \<in> set (ai_lines rnd now k c clouds) \<longleftrightarrow>
     js_gt (max (js_times (rnd (k + 3 * length clouds)) 100)
              (max (js_times (rnd (k + 3 * length clouds + 1)) 100)
                 (js_times (rnd (k + 3 * length clouds + 2)) 100))) (alertThreshold c)"
  by (simp add: ai_lines_def usage_lines_def forecast_lines_def Let_def not_in_clouds_lines)

lemma OPTIMAL_in_ai_lines:
  "Status_OPTIMAL \<in> set (ai_lines rnd now k c clouds) \<longleftrightarrow>
     \<not> js_gt (max (js_times (rnd (k + 3 * length clouds)) 100)
              (max (js_times (rnd (k + 3 * length clouds + 1)) 100)
                 (js_times (rnd (k + 3 * length clouds + 2)) 100))) (alertThreshold c)"
  by (simp add: ai_lines_def usage_lines_def forecast_lines_def Let_def not_in_clouds_lines)

lemma Predictive_alert_in_ai_lines:
  "Predictive_alert \<in> set (ai_lines rnd now k c clouds) \<longleftrightarrow>
     js_gt (js_times (rnd (k + 3 * length clouds + 3)) 100) (alertThreshold c)"
  by (simp add: ai_lines_def usage_lines_def forecast_lines_def forecast_at_def Let_def
      not_in_clouds_lines)

lemma initial_ai_state:
  "config (initial_state e (Some ''true'')) = Some aiConfig"
  "AI_MODE (initial_state e (Some ''true''))"
  "randoms (initial_state e v) = 0" "console (initial_state e v) = []"
  by (simp_all add: initial_state_def select_config_def AI_MODE_of_def)

lemma aiConfig_fields:
  "interval aiConfig = Some 30000" "alertThreshold aiConfig = Some 75"
  "cloudProviders aiConfig = Some [''aws'', ''azure'', ''gcp'']"
  "predictiveWindow aiConfig = Some 300" "aiEnabled aiConfig = Some True"
  "debugMode aiConfig = None"
  by (simp_all add: aiConfig_def no_properties_def)

lemma production_fields:
  "interval production = Some 60000" "alertThreshold production = Some 80"
  "debugMode production = Some False" "cloudProviders production = None"
  by (simp_all add: production_def no_properties_def)

lemma development_fields:
  "interval development = Some 5000" "alertThreshold development = Some 90"
  "debugMode development = Some True" "cloudProviders development = None"
  by (simp_all add: development_def no_properties_def)

lemma config_of_main:
  assumes "select_config (AI_MODE_of v) (ENV_of e) = Some c"
    and "AI_MODE_of v \<longrightarrow> c = aiConfig"
  shows "map_sum id config (main rnd e v) = Inr (Some c)"
  using assms by (simp add: main_emit [OF assms] initial_state_def)




lemma filter_forecast_clouds_lines:
  "filter is_forecast_line (clouds_lines rnd k clouds) = []"
  by (induction clouds arbitrary: k) (simp_all add: cloud_lines_def is_forecast_line_def)

lemma filter_forecast_ai_lines:
  "filter is_forecast_line (ai_lines rnd now k c clouds) =
     (let p = forecast_at rnd (k + 3 * length clouds + 3) in
      [Forecast_cpu (toFixed 2 (cpu p)) (confidence p),
       Forecast_memory (toFixed 2 (memory p)) (confidence p),
       Forecast_traffic (toFixed 0 (traffic p)) (confidence p)])"
  by (simp add: ai_lines_def usage_lines_def forecast_lines_def Let_def
      filter_forecast_clouds_lines is_forecast_line_def)

lemma filter_forecast_basic_lines: "filter is_forecast_line (basic_lines now c) = []"
  by (simp add: basic_lines_def is_forecast_line_def)


lemma initial_basic_state:
  "config (initial_state None None) = Some production"
  "\<not> AI_MODE (initial_state None None)"
  by (simp_all add: initial_state_def select_config_def AI_MODE_of_def ENV_of_def
      baseConfig_def)

lemma tick_times_append [simp]: "tick_times (xs @ ys) = tick_times xs @ tick_times ys"
  by (simp add: tick_times_def)

lemma tick_times_Cons: "tick_times (l # ls) = tick_time l @ tick_times ls"
  by (simp add: tick_times_def)

lemma tick_times_Nil [simp]: "tick_times [] = []"
  by (simp add: tick_times_def)

lemma tick_times_clouds_lines [simp]: "tick_times (clouds_lines rnd k clouds) = []"
  by (induction clouds arbitrary: k)
    (simp_all add: cloud_lines_def tick_times_Cons tick_time_def)

lemma tick_times_ai_lines [simp]: "tick_times (ai_lines rnd now k c clouds) = [now]"
  by (simp add: ai_lines_def usage_lines_def forecast_lines_def Let_def tick_times_Cons
      tick_time_def)

lemma tick_times_basic_lines [simp]: "tick_times (basic_lines now c) = [now]"
  by (simp add: basic_lines_def tick_times_Cons tick_time_def)

lemma Retraining_ai_lines [simp]: "count_list (ai_lines rnd now k c clouds) Retraining = 0"
  by (simp add: ai_lines_def usage_lines_def forecast_lines_def Let_def not_in_clouds_lines)

lemma Retraining_basic_lines [simp]: "count_list (basic_lines now c) Retraining = 0"
  by (simp add: basic_lines_def)

lemma timer_delay_pos: "0 < timer_delay d"
  by (simp add: timer_delay_def split: option.split)

lemma main_undefined_config:
  assumes "select_config (AI_MODE_of v) (ENV_of e) = None"
  shows "main rnd e v = Inl TypeError"
  using assms by (simp add: main_def initial_state_def console_log_def)

lemma select_config_cases:
  assumes "select_config ai env = Some c"
  shows "(ai \<longrightarrow> c = aiConfig) \<and> c \<in> {aiConfig, production, development, no_properties}"
  using assms by (auto simp: select_config_def baseConfig_def split: if_splits)

lemma main_started:
  assumes "main rnd e v = Inr s"
  shows "\<exists>c. select_config (AI_MODE_of v) (ENV_of e) = Some c \<and> started c s \<and>
    AI_MODE s = AI_MODE_of v \<and> ENV s = ENV_of e \<and>
    tick_times (console s) = [0] \<and> count_list (console s) Retraining = 0"
proof (cases "select_config (AI_MODE_of v) (ENV_of e)")
  case None
  with assms show ?thesis by (simp add: main_undefined_config)
next
  case (Some c)
  then have ai: "AI_MODE_of v \<longrightarrow> c = aiConfig"
    using select_config_cases by blast
  have "s = (emit ([Banner_rule, Banner_title, Banner_environment (ENV_of e),
                Banner_ai_mode (AI_MODE_of v), Banner_rule, Monitoring_every (interval c)] @
               (if AI_MODE_of v then ai_lines rnd 0 0 c [''aws'', ''azure'', ''gcp'']
                else basic_lines 0 c))
           (if AI_MODE_of v then 16 else 0) (initial_state e v))
         \<lparr>timers := (CheckSystemHealth, interval c) #
            (if AI_MODE_of v then [(Retrain, Some 120000)] else [])\<rparr>"
    using assms main_emit [OF Some ai, of rnd] by simp
  then show ?thesis
    using Some ai
    by (simp add: started_def initial_state_def tick_times_Cons tick_time_def)
qed

lemma checkSystemHealth_started:
  assumes "started c s"
  shows "\<exists>s'. checkSystemHealth rnd now s = Inr s' \<and> started c s' \<and>
    AI_MODE s' = AI_MODE s \<and> ENV s' = ENV s \<and>
    tick_times (console s') = tick_times (console s) @ [now] \<and>
    count_list (console s') Retraining = count_list (console s) Retraining"
proof (cases "AI_MODE s")
  case True
  with assms have c: "config s = Some aiConfig" "c = aiConfig"
    by (simp_all add: started_def)
  have "checkSystemHealth rnd now s =
      Inr (emit (ai_lines rnd now (randoms s) aiConfig [''aws'', ''azure'', ''gcp''])
            (3 * length [''aws'', ''azure'', ''gcp''] + 7) s)"
    using True by (simp only: checkSystemHealth_def if_True
        monitorAIHealth_emit [OF c(1) aiConfig_fields(3)])
  then show ?thesis
    using assms by (simp add: started_def)
next
  case False
  from assms have c: "config s = Some c"
    by (simp add: started_def)
  have "checkSystemHealth rnd now s = Inr (emit (basic_lines now c) 0 s)"
    using False by (simp add: checkSystemHealth_def monitorBasicHealth_emit [OF c])
  then show ?thesis
    using assms by (simp add: started_def)
qed

lemma retrain_started:
  assumes "started c s"
  shows "started c (retrain s)" "AI_MODE (retrain s) = AI_MODE s" "ENV (retrain s) = ENV s"
    "tick_times (console (retrain s)) = tick_times (console s)"
    "count_list (console (retrain s)) Retraining = Suc (count_list (console s) Retraining)"
  using assms
  by (simp_all add: retrain_def console_log_emit emit_emit started_def tick_times_Cons
      tick_time_def)

lemma due_started:
  assumes "started c s"
  shows "due (timers s) t =
    (if 0 < t \<and> timer_delay (interval c) dvd t then [CheckSystemHealth] else []) @
    (if AI_MODE s \<and> 0 < t \<and> 120000 dvd t then [Retrain] else [])"
  using assms by (simp add: started_def due_def timer_delay_def)

lemma fire_started:
  assumes "started c s"
  shows "\<exists>s'. run_callbacks rnd t (due (timers s) t) s = Inr s' \<and> started c s' \<and>
    AI_MODE s' = AI_MODE s \<and> ENV s' = ENV s \<and>
    tick_times (console s') =
      tick_times (console s) @ (if 0 < t \<and> timer_delay (interval c) dvd t then [t] else []) \<and>
    count_list (console s') Retraining =
      count_list (console s) Retraining + (if AI_MODE s \<and> 0 < t \<and> 120000 dvd t then 1 else 0)"
proof -
  let ?tick = "0 < t \<and> timer_delay (interval c) dvd t"
  let ?train = "AI_MODE s \<and> 0 < t \<and> 120000 dvd t"
  obtain s1 where s1: "(if ?tick then checkSystemHealth rnd t s else Inr s) = Inr s1"
    "started c s1" "AI_MODE s1 = AI_MODE s" "ENV s1 = ENV s"
    "tick_times (console s1) = tick_times (console s) @ (if ?tick then [t] else [])"
    "count_list (console s1) Retraining = count_list (console s) Retraining"
  proof (cases ?tick)
    case True
    with checkSystemHealth_started [OF assms, of rnd t] that show ?thesis by auto
  next
    case False
    with assms that show ?thesis by auto
  qed
  let ?s2 = "if ?train then retrain s1 else s1"
  have s2: "started c ?s2" "AI_MODE ?s2 = AI_MODE s" "ENV ?s2 = ENV s"
    "tick_times (console ?s2) = tick_times (console s) @ (if ?tick then [t] else [])"
    "count_list (console ?s2) Retraining =
       count_list (console s) Retraining + (if ?train then 1 else 0)"
    using s1(2-6) retrain_started [OF s1(2)] by (simp_all del: One_nat_def)
  have "run_callbacks rnd t (due (timers s) t) s = Inr ?s2"
    using s1(1,3) by (auto simp: due_started [OF assms] run_callback_def split: if_splits)
  with s2 show ?thesis by blast
qed

lemma div_Suc_dvd:
  assumes "0 < (d::nat)"
  shows "Suc n div d = n div d + (if d dvd Suc n then 1 else 0)"
  using assms by (simp add: div_Suc dvd_eq_mod_eq_0)

lemma multiples_upto_Suc:
  assumes "0 < (d::nat)"
  shows "map (\<lambda>k. k * d) [1..<Suc (Suc n div d)] =
    map (\<lambda>k. k * d) [1..<Suc (n div d)] @ (if d dvd Suc n then [Suc n] else [])"
proof (cases "d dvd Suc n")
  case True
  then have "Suc n div d * d = Suc n" by simp
  moreover have "Suc n div d = Suc (n div d)"
    using assms True by (simp add: div_Suc_dvd)
  ultimately show ?thesis
    using True by simp
next
  case False
  then show ?thesis
    using assms by (simp add: div_Suc_dvd)
qed

lemma run_until_started:
  assumes "started c s0"
  shows "\<exists>s. run_until rnd n s0 = Inr s \<and> started c s \<and>
    AI_MODE s = AI_MODE s0 \<and> ENV s = ENV s0 \<and>
    tick_times (console s) =
      tick_times (console s0) @
      map (\<lambda>k. k * timer_delay (interval c)) [1..<Suc (n div timer_delay (interval c))] \<and>
    count_list (console s) Retraining =
      count_list (console s0) Retraining + (if AI_MODE s0 then n div 120000 else 0)"
proof (induction n)
  case 0
  with assms show ?case by simp
next
  case (Suc n)
  let ?T = "timer_delay (interval c)"
  from Suc obtain s where s: "run_until rnd n s0 = Inr s" "started c s"
    "AI_MODE s = AI_MODE s0" "ENV s = ENV s0"
    "tick_times (console s) =
       tick_times (console s0) @ map (\<lambda>k. k * ?T) [1..<Suc (n div ?T)]"
    "count_list (console s) Retraining =
       count_list (console s0) Retraining + (if AI_MODE s0 then n div 120000 else 0)"
    by blast
  from fire_started [OF s(2), of rnd "Suc n"] obtain s' where s':
    "run_callbacks rnd (Suc n) (due (timers s) (Suc n)) s = Inr s'" "started c s'"
    "AI_MODE s' = AI_MODE s" "ENV s' = ENV s"
    "tick_times (console s') =
       tick_times (console s) @ (if ?T dvd Suc n then [Suc n] else [])"
    "count_list (console s') Retraining =
       count_list (console s) Retraining +
       (if AI_MODE s \<and> 120000 dvd Suc n then 1 else 0)"
    by auto
  have run: "run_until rnd (Suc n) s0 = Inr s'"
    using s(1) s'(1) by simp
  have ticks: "tick_times (console s') =
      tick_times (console s0) @ map (\<lambda>k. k * ?T) [1..<Suc (Suc n div ?T)]"
    using s'(5) s(5) by (simp only: multiples_upto_Suc [OF timer_delay_pos] append_assoc)
  have trains: "count_list (console s') Retraining =
      count_list (console s0) Retraining + (if AI_MODE s0 then Suc n div 120000 else 0)"
    using s'(6) s(6) s(3) by (simp add: div_Suc_dvd)
  from run s'(2,3,4) s(3,4) ticks trains show ?case by simp
qed

lemma checkSystemHealth_started_ai:
  assumes "started c s" and "AI_MODE s"
  shows "checkSystemHealth rnd now s =
    Inr (emit (ai_lines rnd now (randoms s) c [''aws'', ''azure'', ''gcp'']) 16 s)"
proof -
  from assms have c: "config s = Some aiConfig" "c = aiConfig"
    by (simp_all add: started_def)
  show ?thesis
    using assms(2)
    by (simp add: checkSystemHealth_def c(2) monitorAIHealth_emit [OF c(1) aiConfig_fields(3)])
qed

lemma timer_delay_of_config:
  assumes "c \<in> {aiConfig, production, development, no_properties}"
    and "interval c = Some d"
  shows "timer_delay (interval c) = d"
  using assms
  by (auto simp: timer_delay_def aiConfig_fields production_fields development_fields
      no_properties_def)

lemma main_succeeds:
  assumes "select_config (AI_MODE_of v) (ENV_of e) = Some c"
  shows "\<exists>s0. main rnd e v = Inr s0 \<and> config s0 = Some c"
proof -
  from select_config_cases [OF assms] have ai: "AI_MODE_of v \<longrightarrow> c = aiConfig"
    by blast
  show ?thesis
    by (simp add: main_emit [OF assms ai] initial_state_def assms)
qed

lemma selected_examples:
  "select_config (AI_MODE_of None) (ENV_of (Some ''development'')) = Some development"
  "select_config (AI_MODE_of (Some ''true'')) (ENV_of None) = Some aiConfig"
  by (simp_all add: select_config_def AI_MODE_of_def ENV_of_def baseConfig_def)

subsection \<open>Doubles used in the examples\<close>



lemma values_half:
  "js_times (1 / 2) 10 = 5" "js_plus 5 5 = 10" "js_times (1 / 2) 100 = 50"
  "js_times (1 / 2) 1000 = 500" "js_times (1 / 2) 30 = 15" "js_plus 15 70 = 85"
proof -
  show "js_times (1 / 2) 10 = 5"
    unfolding js_times_def js_plus_def by (rule round_double_dyadic [of 5 0]) simp_all
  show "js_plus 5 5 = 10"
    unfolding js_times_def js_plus_def by (rule round_double_dyadic [of 10 0]) simp_all
  show "js_times (1 / 2) 100 = 50"
    unfolding js_times_def js_plus_def by (rule round_double_dyadic [of 50 0]) simp_all
  show "js_times (1 / 2) 1000 = 500"
    unfolding js_times_def js_plus_def by (rule round_double_dyadic [of 500 0]) simp_all
  show "js_times (1 / 2) 30 = 15"
    unfolding js_times_def js_plus_def by (rule round_double_dyadic [of 15 0]) simp_all
  show "js_plus 15 70 = 85"
    unfolding js_times_def js_plus_def by (rule round_double_dyadic [of 85 0]) simp_all
qed

lemma values_three_quarters:
  "js_times (3 / 4) 100 = 75"
proof -
  show "js_times (3 / 4) 100 = 75"
    unfolding js_times_def js_plus_def by (rule round_double_dyadic [of 75 0]) simp_all
qed

lemma values_seven_eighths:
  "js_times (7 / 8) 100 = 175 / 2" "js_times (7 / 8) 1000 = 875" "js_times (7 / 8) 30 = 105 / 4"
  "js_plus (105 / 4) 70 = 385 / 4"
proof -
  show "js_times (7 / 8) 100 = 175 / 2"
    unfolding js_times_def js_plus_def by (rule round_double_dyadic [of 175 1]) simp_all
  show "js_times (7 / 8) 1000 = 875"
    unfolding js_times_def js_plus_def by (rule round_double_dyadic [of 875 0]) simp_all
  show "js_times (7 / 8) 30 = 105 / 4"
    unfolding js_times_def js_plus_def by (rule round_double_dyadic [of 105 2]) simp_all
  show "js_plus (105 / 4) 70 = 385 / 4"
    unfolding js_times_def js_plus_def by (rule round_double_dyadic [of 385 2]) simp_all
qed


text \<open>
  Three draws where the rounding shows: the double nearest to 0.7 gives twelve instances
  (its exact product with 10 is below 7), a draw whose confidence is printed as 70.02 (the
  exact sum is below 70.015), and the largest double below 1, whose confidence is 100.
\<close>

lemma rounding_examples:
  "\<lfloor>js_plus (js_times (round_double (7 / 10)) 10) 5\<rfloor> = 12"
  "toFixed 2 (js_plus (js_times (2251799813685 / 2 ^ 52) 30) 70) = 7002 / 100"
  "js_plus (js_times (1 - 1 / 2 ^ 53) 30) 70 = 100"
  by code_simp+

lemma toFixed_examples:
  "toFixed 2 50 = 50" "toFixed 0 500 = 500" "toFixed 2 85 = 85" "toFixed 2 75 = 75"
  "toFixed 2 (175 / 2) = 175 / 2" "toFixed 2 (385 / 4) = 385 / 4" "toFixed 0 875 = 875"
  "toFixed 2 (819175 / 8192) = 100"
  by (simp_all add: toFixed_def)

section \<open>The claims\<close>

text \<open>
  C1. In a health check of the AI mode, where \<open>maxUsage\<close> is the maximum of the three
  sampled percentages (the random values number \<open>j\<close>, \<open>j + 1\<close>, \<open>j + 2\<close>, each times 100):
  the check writes the alert line and the auto-scaling line exactly when \<open>maxUsage\<close> is
  strictly greater than \<open>config.alertThreshold\<close>, and the line OPTIMAL exactly when it is
  not; when \<open>maxUsage\<close> equals the threshold, the status is OPTIMAL and there is no alert.
\<close>

theorem evaluator_alert_iff_above_threshold:
  assumes "config s = Some c" and "cloudProviders c = Some clouds"
    and "alertThreshold c = Some threshold"
    and "j = randoms s + 3 * length clouds"
    and "maxUsage = max (js_times (rnd j) 100) (max (js_times (rnd (j + 1)) 100) (js_times (rnd (j + 2)) 100))"
  shows "\<exists>s' out. monitorAIHealth rnd now s = Inr s' \<and> console s' = console s @ out \<and>
    (ALERT \<in> set out \<longleftrightarrow> threshold < maxUsage) \<and>
    (Auto_scaling_triggered \<in> set out \<longleftrightarrow> threshold < maxUsage) \<and>
    (Status_OPTIMAL \<in> set out \<longleftrightarrow> \<not> threshold < maxUsage) \<and>
    (maxUsage = threshold \<longrightarrow> Status_OPTIMAL \<in> set out \<and> ALERT \<notin> set out)"
proof -
  let ?out = "ai_lines rnd now (randoms s) c clouds"
  have run: "monitorAIHealth rnd now s = Inr (emit ?out (3 * length clouds + 7) s)"
    using assms(1,2) by (rule monitorAIHealth_emit)
  have a: "ALERT \<in> set ?out \<longleftrightarrow> threshold < maxUsage"
    by (simp add: ALERT_in_ai_lines assms)
  have b: "Auto_scaling_triggered \<in> set ?out \<longleftrightarrow> threshold < maxUsage"
    by (simp add: Auto_scaling_in_ai_lines assms)
  have c: "Status_OPTIMAL \<in> set ?out \<longleftrightarrow> \<not> threshold < maxUsage"
    by (simp add: OPTIMAL_in_ai_lines assms)
  from a c have d: "maxUsage = threshold \<longrightarrow> Status_OPTIMAL \<in> set ?out \<and> ALERT \<notin> set ?out"
    by simp
  show ?thesis
    using run a b c d
    by (intro exI [of _ "emit ?out (3 * length clouds + 7) s"] exI [of _ ?out]) simp
qed

text \<open>
  The first health check of the AI mode when every random value is 3/4: the three
  percentages are 75, which is the threshold, and the status is OPTIMAL.
\<close>

theorem evaluator_alert_witness:
  "\<exists>s' out. monitorAIHealth (constant_source (3 / 4)) 0 (initial_state None (Some ''true''))
       = Inr s' \<and>
     console s' = out \<and> Status_OPTIMAL \<in> set out \<and> ALERT \<notin> set out \<and>
     Auto_scaling_triggered \<notin> set out"
proof -
  let ?s = "initial_state None (Some ''true'')"
  have h4: "9 = randoms ?s + 3 * length [''aws'', ''azure'', ''gcp'']"
    by (simp add: initial_ai_state)
  have h5: "(75::real) = max (js_times (constant_source (3 / 4) 9) 100)
      (max (js_times (constant_source (3 / 4) (9 + 1)) 100) (js_times (constant_source (3 / 4) (9 + 2)) 100))"
    by (simp add: constant_source_def values_three_quarters)
  from evaluator_alert_iff_above_threshold
    [OF initial_ai_state(1) aiConfig_fields(3) aiConfig_fields(2) h4 h5, of 0]
  show ?thesis
    unfolding initial_ai_state(4) by auto
qed

text \<open>
  C2. With \<^verbatim>\<open>NODE_ENV=staging\<close> and the AI mode off, \<^verbatim>\<open>baseConfig[ENV]\<close> is \<^verbatim>\<open>undefined\<close> and
  line 135 raises a TypeError: the script does not fall back to the production profile.
  An unset or empty \<^verbatim>\<open>NODE_ENV\<close> does select the production profile.
\<close>

theorem unknown_mode_raises:
  "main rnd (Some ''staging'') None = Inl TypeError \<and>
   select_config False (ENV_of (Some ''staging'')) = None \<and>
   select_config False (ENV_of None) = Some production \<and>
   select_config False (ENV_of (Some [])) = Some production"
  by (simp add: main_def initial_state_def ENV_of_def AI_MODE_of_def select_config_def
      baseConfig_def Object_prototype_keys_def console_log_def)

text \<open>
  C4. With the AI mode on, the configuration is \<open>aiConfig\<close> for every mode, with interval
  30000, threshold 75, the clouds aws, azure and gcp, predictive window 300 and \<open>aiEnabled\<close>
  true. With the AI mode off, the mode production gives interval 60000, threshold 80 and
  \<open>debugMode\<close> false, and the mode development gives interval 5000, threshold 90 and
  \<open>debugMode\<close> true. The same holds of the configuration the script runs with.
\<close>

theorem configuration_resolution:
  "select_config True mode = Some aiConfig \<and>
   map_sum id config (main rnd NODE_ENV (Some ''true'')) = Inr (Some aiConfig) \<and>
   interval aiConfig = Some 30000 \<and> alertThreshold aiConfig = Some 75 \<and>
   cloudProviders aiConfig = Some [''aws'', ''azure'', ''gcp''] \<and>
   predictiveWindow aiConfig = Some 300 \<and> aiEnabled aiConfig = Some True \<and>
   select_config False ''production'' = Some production \<and>
   map_sum id config (main rnd (Some ''production'') None) = Inr (Some production) \<and>
   interval production = Some 60000 \<and> alertThreshold production = Some 80 \<and>
   debugMode production = Some False \<and>
   select_config False ''development'' = Some development \<and>
   map_sum id config (main rnd (Some ''development'') None) = Inr (Some development) \<and>
   interval development = Some 5000 \<and> alertThreshold development = Some 90 \<and>
   debugMode development = Some True"
proof -
  have ai: "map_sum id config (main rnd NODE_ENV (Some ''true'')) = Inr (Some aiConfig)"
    by (rule config_of_main) (simp_all add: select_config_def AI_MODE_of_def)
  have prod: "map_sum id config (main rnd (Some ''production'') None) = Inr (Some production)"
    by (rule config_of_main)
      (simp_all add: select_config_def AI_MODE_of_def ENV_of_def baseConfig_def)
  have dev: "map_sum id config (main rnd (Some ''development'') None) = Inr (Some development)"
    by (rule config_of_main)
      (simp_all add: select_config_def AI_MODE_of_def ENV_of_def baseConfig_def)
  show ?thesis
    using ai prod dev
    by (simp add: aiConfig_fields production_fields development_fields select_config_def
        baseConfig_def)
qed

text \<open>
  C10. A health check with the AI mode off writes the header, the three fixed lines, the
  two debug lines when \<open>debugMode\<close> is truthy, and last the line HEALTHY. It changes nothing
  but the output: no random value is drawn. Its output has no resource usage, no status
  OPTIMAL and no alert, whatever the threshold and the random source are.
\<close>

theorem basic_check_is_fixed:
  assumes "\<not> AI_MODE s" and "config s = Some c"
  shows "\<exists>out. checkSystemHealth rnd now s = Inr (s\<lparr>console := console s @ out\<rparr>) \<and>
    out = [Basic_header now, Cpu_normal, Memory_normal, Disk_adequate] @
          (if truthy (debugMode c) then [Hot_reload_active, Debug_port] else []) @
          [Status_HEALTHY] \<and>
    last out = Status_HEALTHY \<and>
    Resource_usage \<notin> set out \<and> ALERT \<notin> set out \<and> Auto_scaling_triggered \<notin> set out \<and>
    Status_OPTIMAL \<notin> set out \<and> Predictive_alert \<notin> set out"
  using assms
  by (simp add: checkSystemHealth_def monitorBasicHealth_emit [where c = c] basic_lines_def
      emit_def)

text \<open>The mode development at time 5000, with a random source far above the threshold.\<close>

theorem basic_check_witness:
  "\<exists>out. checkSystemHealth (constant_source (99 / 100)) 5000 (initial_state (Some ''development'') None) =
      Inr ((initial_state (Some ''development'') None)\<lparr>console := out\<rparr>) \<and>
     out = [Basic_header 5000, Cpu_normal, Memory_normal, Disk_adequate, Hot_reload_active,
            Debug_port, Status_HEALTHY]"
proof -
  let ?s = "initial_state (Some ''development'') None"
  have h1: "\<not> AI_MODE ?s"
    by (simp add: initial_state_def AI_MODE_of_def)
  have h2: "config ?s = Some development"
    by (simp add: initial_state_def AI_MODE_of_def ENV_of_def select_config_def baseConfig_def)
  from basic_check_is_fixed [OF h1 h2, of "constant_source (99 / 100)" 5000]
  show ?thesis
    by (simp add: development_fields initial_ai_state)
qed

text \<open>
  C5. In a health check of the AI mode, where \<open>p\<close> is the forecast (built from the four
  random values after the three of the sample): the predictive alert is written exactly
  when \<open>cpu p\<close> is strictly greater than \<open>config.alertThreshold\<close>, the threshold that the
  alert on the sample uses; the condition reads no other field of the forecast; and the
  predictive alert is another line than the alert and the auto-scaling line.
\<close>

theorem predictive_alert_iff_forecast_cpu_above_threshold:
  assumes "config s = Some c" and "cloudProviders c = Some clouds"
    and "alertThreshold c = Some threshold"
    and "j = randoms s + 3 * length clouds"
    and "p = forecast_at rnd (j + 3)"
  shows "\<exists>s' out. monitorAIHealth rnd now s = Inr s' \<and> console s' = console s @ out \<and>
    Forecast_cpu (toFixed 2 (cpu p)) (confidence p) \<in> set out \<and>
    cpu p = js_times (rnd (j + 3)) 100 \<and>
    (Predictive_alert \<in> set out \<longleftrightarrow> threshold < cpu p) \<and>
    (ALERT \<in> set out \<longleftrightarrow>
       threshold < max (js_times (rnd j) 100) (max (js_times (rnd (j + 1)) 100) (js_times (rnd (j + 2)) 100))) \<and>
    Predictive_alert \<noteq> ALERT \<and> Predictive_alert \<noteq> Auto_scaling_triggered"
proof -
  let ?out = "ai_lines rnd now (randoms s) c clouds"
  have run: "monitorAIHealth rnd now s = Inr (emit ?out (3 * length clouds + 7) s)"
    using assms(1,2) by (rule monitorAIHealth_emit)
  have a: "Predictive_alert \<in> set ?out \<longleftrightarrow> threshold < cpu p"
    by (simp add: Predictive_alert_in_ai_lines assms forecast_at_def)
  have b: "ALERT \<in> set ?out \<longleftrightarrow>
       threshold < max (js_times (rnd j) 100) (max (js_times (rnd (j + 1)) 100) (js_times (rnd (j + 2)) 100))"
    by (simp add: ALERT_in_ai_lines assms)
  have c: "Forecast_cpu (toFixed 2 (cpu p)) (confidence p) \<in> set ?out"
    by (simp add: ai_lines_def forecast_lines_def assms Let_def)
  have d: "cpu p = js_times (rnd (j + 3)) 100"
    by (simp add: assms forecast_at_def)
  show ?thesis
    using run a b c d
    by (intro exI [of _ "emit ?out (3 * length clouds + 7) s"] exI [of _ ?out]) simp
qed

text \<open>Every random value 7/8: the forecast's cpu is 87.5, above the threshold 75.\<close>

theorem predictive_alert_witness:
  "\<exists>s' out. monitorAIHealth (constant_source (7 / 8)) 0 (initial_state None (Some ''true''))
       = Inr s' \<and>
     console s' = out \<and> Forecast_cpu (175 / 2) (385 / 4) \<in> set out \<and>
     Predictive_alert \<in> set out \<and> ALERT \<in> set out"
proof -
  let ?s = "initial_state None (Some ''true'')"
  let ?r = "constant_source (7 / 8)"
  have h4: "9 = randoms ?s + 3 * length [''aws'', ''azure'', ''gcp'']"
    by (simp add: initial_ai_state)
  have p: "forecast_at ?r (9 + 3) =
      \<lparr>cpu = 175 / 2, memory = 175 / 2, traffic = 875, confidence = 385 / 4\<rparr>"
    by (simp add: forecast_at_def constant_source_def values_seven_eighths toFixed_examples)
  have m: "max (js_times (?r 9) 100) (max (js_times (?r (9 + 1)) 100) (js_times (?r (9 + 2)) 100))
      = 175 / 2"
    by (simp add: constant_source_def values_seven_eighths)
  from predictive_alert_iff_forecast_cpu_above_threshold
    [OF initial_ai_state(1) aiConfig_fields(3) aiConfig_fields(2) h4 refl, of ?r 0]
  show ?thesis
    unfolding initial_ai_state(4) p m by (auto simp: toFixed_examples)
qed




text \<open>
  C7. When every random value is in \<open>[0,1)\<close>: a health check of the AI mode prints exactly
  one forecast \<open>p\<close>, whose confidence (the rounded sum of line 114, with two decimals) is
  within \<open>[70,100]\<close> and whose traffic is at least 0; a health check with the AI mode off
  prints no forecast.
\<close>

theorem forecast_only_in_ai_mode:
  assumes "config s = Some c" and "\<forall>i. 0 \<le> rnd i \<and> rnd i < 1"
    and "p = forecast_at rnd (randoms s + 3 * length clouds + 3)"
  shows "(AI_MODE s \<and> cloudProviders c = Some clouds \<longrightarrow>
      (\<exists>s' out. checkSystemHealth rnd now s = Inr s' \<and> console s' = console s @ out \<and>
         filter is_forecast_line out =
           [Forecast_cpu (toFixed 2 (cpu p)) (confidence p),
            Forecast_memory (toFixed 2 (memory p)) (confidence p),
            Forecast_traffic (toFixed 0 (traffic p)) (confidence p)] \<and>
         count_list out Predictive_analysis = 1 \<and>
         70 \<le> confidence p \<and> confidence p \<le> 100 \<and> 0 \<le> traffic p)) \<and>
    (\<not> AI_MODE s \<longrightarrow>
      (\<exists>s' out. checkSystemHealth rnd now s = Inr s' \<and> console s' = console s @ out \<and>
         filter is_forecast_line out = [] \<and> count_list out Predictive_analysis = 0))"
proof (intro conjI impI)
  assume ai: "AI_MODE s \<and> cloudProviders c = Some clouds"
  let ?out = "ai_lines rnd now (randoms s) c clouds"
  have run: "checkSystemHealth rnd now s = Inr (emit ?out (3 * length clouds + 7) s)"
    using ai assms(1) by (simp add: checkSystemHealth_def monitorAIHealth_emit)
  have f: "filter is_forecast_line ?out =
      [Forecast_cpu (toFixed 2 (cpu p)) (confidence p),
       Forecast_memory (toFixed 2 (memory p)) (confidence p),
       Forecast_traffic (toFixed 0 (traffic p)) (confidence p)]"
    by (simp add: filter_forecast_ai_lines assms(3) Let_def)
  have "Predictive_analysis \<notin> set (clouds_lines rnd (randoms s) clouds)"
    by (simp add: not_in_clouds_lines)
  then have n: "count_list ?out Predictive_analysis = 1"
    by (simp add: ai_lines_def usage_lines_def forecast_lines_def Let_def)
  have r: "0 \<le> rnd k" "rnd k < 1" for k
    using assms(2) by simp_all
  have bound: "70 \<le> js_plus (js_times (rnd k) 30) 70" "js_plus (js_times (rnd k) 30) 70 \<le> 100"
    for k
    by (rule confidence_value_range [OF r])+
  have conf: "70 \<le> confidence p" "confidence p \<le> 100"
    unfolding assms(3) forecast_at_def prediction.simps
    by (rule toFixed_2_range [OF bound]; simp)+
  have tr: "0 \<le> traffic p"
    using r by (simp add: assms(3) forecast_at_def js_times_def round_double_nonneg)
  show "\<exists>s' out. checkSystemHealth rnd now s = Inr s' \<and> console s' = console s @ out \<and>
         filter is_forecast_line out =
           [Forecast_cpu (toFixed 2 (cpu p)) (confidence p),
            Forecast_memory (toFixed 2 (memory p)) (confidence p),
            Forecast_traffic (toFixed 0 (traffic p)) (confidence p)] \<and>
         count_list out Predictive_analysis = 1 \<and>
         70 \<le> confidence p \<and> confidence p \<le> 100 \<and> 0 \<le> traffic p"
    using run f n conf tr
    by (intro exI [of _ "emit ?out (3 * length clouds + 7) s"] exI [of _ ?out]) simp
next
  assume basic: "\<not> AI_MODE s"
  let ?out = "basic_lines now c"
  have run: "checkSystemHealth rnd now s = Inr (emit ?out 0 s)"
    using basic assms(1) by (simp add: checkSystemHealth_def monitorBasicHealth_emit)
  have n: "count_list ?out Predictive_analysis = 0"
    by (simp add: basic_lines_def)
  show "\<exists>s' out. checkSystemHealth rnd now s = Inr s' \<and> console s' = console s @ out \<and>
         filter is_forecast_line out = [] \<and> count_list out Predictive_analysis = 0"
    using run n
    by (intro exI [of _ "emit ?out 0 s"] exI [of _ ?out]) (simp add: filter_forecast_basic_lines)
qed

text \<open>
  Every random value 1/2: the forecast of the AI mode has confidence 85 and traffic 500; the
  production mode prints none.
\<close>

theorem forecast_witness:
  "(\<forall>i. 0 \<le> constant_source (1 / 2) i \<and> constant_source (1 / 2) i < 1) \<and>
   (\<exists>s' out. checkSystemHealth (constant_source (1 / 2)) 0 (initial_state None (Some ''true''))
        = Inr s' \<and>
      console s' = out \<and>
      filter is_forecast_line out =
        [Forecast_cpu 50 85, Forecast_memory 50 85, Forecast_traffic 500 85] \<and>
      count_list out Predictive_analysis = 1) \<and>
   (\<exists>s' out. checkSystemHealth (constant_source (1 / 2)) 0 (initial_state None None) = Inr s' \<and>
      console s' = out \<and> filter is_forecast_line out = [] \<and>
      count_list out Predictive_analysis = 0)"
proof -
  let ?r = "constant_source (1 / 2)"
  have h: "\<forall>i. 0 \<le> ?r i \<and> ?r i < 1"
    by (simp add: constant_source_def)
  have p: "forecast_at ?r k = \<lparr>cpu = 50, memory = 50, traffic = 500, confidence = 85\<rparr>" for k
    by (simp add: forecast_at_def constant_source_def values_half toFixed_examples)
  note t = toFixed_examples
  have ai: "AI_MODE (initial_state None (Some ''true'')) \<and>
      cloudProviders aiConfig = Some [''aws'', ''azure'', ''gcp'']"
    by (simp add: initial_ai_state aiConfig_fields)
  from forecast_only_in_ai_mode [OF initial_ai_state(1) [of None] h refl,
      where clouds = "[''aws'', ''azure'', ''gcp'']" and now = 0] ai
  have 1: "\<exists>s' out. checkSystemHealth ?r 0 (initial_state None (Some ''true'')) = Inr s' \<and>
      console s' = out \<and>
      filter is_forecast_line out =
        [Forecast_cpu 50 85, Forecast_memory 50 85, Forecast_traffic 500 85] \<and>
      count_list out Predictive_analysis = 1"
    unfolding p initial_ai_state(4) by (auto simp: t)
  from forecast_only_in_ai_mode [OF initial_basic_state(1) h refl,
      where clouds = "[]" and now = 0] initial_basic_state(2)
  have 2: "\<exists>s' out. checkSystemHealth ?r 0 (initial_state None None) = Inr s' \<and>
      console s' = out \<and> filter is_forecast_line out = [] \<and>
      count_list out Predictive_analysis = 0"
    unfolding initial_ai_state(4) by auto
  from h 1 2 show ?thesis by blast
qed

text \<open>
  C3, as stated, fails with the AI mode off. The health check of the production mode at
  time 60000, with a random source that would give 99 for each percentage: the output is
  the five fixed lines, with no resource usage and no status OPTIMAL or alert, and the
  number of random values drawn stays 0.
\<close>

theorem basic_check_does_not_sample:
  "map_sum id console
     (checkSystemHealth (constant_source (99 / 100)) 60000 (initial_state None None)) =
     Inr [Basic_header 60000, Cpu_normal, Memory_normal, Disk_adequate, Status_HEALTHY] \<and>
   map_sum id randoms
     (checkSystemHealth (constant_source (99 / 100)) 60000 (initial_state None None)) = Inr 0"
  by (simp add: checkSystemHealth_def initial_basic_state initial_ai_state
      monitorBasicHealth_emit [OF initial_basic_state(1)] basic_lines_def production_fields)

text \<open>
  C3, amended. A health check of the AI mode draws three fresh random values for the
  sample, writes the sample, then the result of comparing its maximum with
  \<open>config.alertThreshold\<close>, and only then the forecast; nothing before the sample is a usage
  line or a status. A health check with the AI mode off draws no random value and writes
  the fixed lines, with no sample and no comparison.
\<close>

theorem ai_check_samples_then_evaluates:
  assumes "config s = Some c" and "j = randoms s + 3 * length clouds"
  shows "(AI_MODE s \<and> cloudProviders c = Some clouds \<longrightarrow>
      (\<exists>s' pre. checkSystemHealth rnd now s = Inr s' \<and>
         randoms s' = randoms s + (3 * length clouds + 7) \<and>
         console s' = console s @ pre @
           usage_lines (js_times (rnd j) 100) (js_times (rnd (j + 1)) 100) (js_times (rnd (j + 2)) 100) (alertThreshold c) @
           forecast_lines (forecast_at rnd (j + 3)) (alertThreshold c) \<and>
         Resource_usage \<notin> set pre \<and> ALERT \<notin> set pre \<and> Status_OPTIMAL \<notin> set pre \<and>
         Predictive_analysis \<notin> set pre)) \<and>
    (\<not> AI_MODE s \<longrightarrow>
      (\<exists>s'. checkSystemHealth rnd now s = Inr s' \<and> randoms s' = randoms s \<and>
         console s' = console s @ basic_lines now c \<and>
         Resource_usage \<notin> set (basic_lines now c) \<and> ALERT \<notin> set (basic_lines now c) \<and>
         Status_OPTIMAL \<notin> set (basic_lines now c)))"
proof (intro conjI impI)
  assume ai: "AI_MODE s \<and> cloudProviders c = Some clouds"
  let ?pre = "[AI_header now, AI_monitoring_active, Model (mlModelPath c),
       Predictive_window (predictiveWindow c), Clouds (join '', '' clouds)] @
      clouds_lines rnd (randoms s) clouds"
  have run: "checkSystemHealth rnd now s =
      Inr (emit (ai_lines rnd now (randoms s) c clouds) (3 * length clouds + 7) s)"
    using ai assms(1) by (simp add: checkSystemHealth_def monitorAIHealth_emit)
  have split: "ai_lines rnd now (randoms s) c clouds = ?pre @
      usage_lines (js_times (rnd j) 100) (js_times (rnd (j + 1)) 100) (js_times (rnd (j + 2)) 100) (alertThreshold c) @
      forecast_lines (forecast_at rnd (j + 3)) (alertThreshold c)"
    by (simp add: ai_lines_def assms(2) Let_def)
  have pre: "Resource_usage \<notin> set ?pre" "ALERT \<notin> set ?pre" "Status_OPTIMAL \<notin> set ?pre"
    "Predictive_analysis \<notin> set ?pre"
    by (simp_all add: not_in_clouds_lines)
  show "\<exists>s' pre. checkSystemHealth rnd now s = Inr s' \<and>
         randoms s' = randoms s + (3 * length clouds + 7) \<and>
         console s' = console s @ pre @
           usage_lines (js_times (rnd j) 100) (js_times (rnd (j + 1)) 100) (js_times (rnd (j + 2)) 100) (alertThreshold c) @
           forecast_lines (forecast_at rnd (j + 3)) (alertThreshold c) \<and>
         Resource_usage \<notin> set pre \<and> ALERT \<notin> set pre \<and> Status_OPTIMAL \<notin> set pre \<and>
         Predictive_analysis \<notin> set pre"
    using pre
    by (intro exI [of _ "emit (ai_lines rnd now (randoms s) c clouds) (3 * length clouds + 7) s"]
        exI [of _ ?pre]) (simp add: run split)
next
  assume basic: "\<not> AI_MODE s"
  have run: "checkSystemHealth rnd now s = Inr (emit (basic_lines now c) 0 s)"
    using basic assms(1) by (simp add: checkSystemHealth_def monitorBasicHealth_emit)
  show "\<exists>s'. checkSystemHealth rnd now s = Inr s' \<and> randoms s' = randoms s \<and>
         console s' = console s @ basic_lines now c \<and>
         Resource_usage \<notin> set (basic_lines now c) \<and> ALERT \<notin> set (basic_lines now c) \<and>
         Status_OPTIMAL \<notin> set (basic_lines now c)"
    by (intro exI [of _ "emit (basic_lines now c) 0 s"]) (simp add: run basic_lines_def)
qed

text \<open>
  Every random value 7/8, at time 30000, with the AI mode on and with the production mode.
\<close>

theorem ai_check_witness:
  "(\<exists>s' pre. checkSystemHealth (constant_source (7 / 8)) 30000
        (initial_state None (Some ''true'')) = Inr s' \<and>
      randoms s' = 16 \<and>
      console s' = pre @
        [Resource_usage, Cpu (175 / 2), Memory (175 / 2), Disk (175 / 2), ALERT, Auto_scaling_triggered,
         Predictive_analysis, Analyzing_trends, Forecast_cpu (175 / 2) (385 / 4),
         Forecast_memory (175 / 2) (385 / 4),
         Forecast_traffic 875 (385 / 4), Predictive_alert] \<and>
      Resource_usage \<notin> set pre) \<and>
   (\<exists>s'. checkSystemHealth (constant_source (7 / 8)) 30000 (initial_state None None) = Inr s' \<and>
      randoms s' = 0 \<and>
      console s' =
        [Basic_header 30000, Cpu_normal, Memory_normal, Disk_adequate, Status_HEALTHY])"
proof -
  let ?r = "constant_source (7 / 8)"
  have j: "9 = randoms (initial_state None (Some ''true'')) + 3 * length [''aws'', ''azure'', ''gcp'']"
    "0 = randoms (initial_state None None) + 3 * length ([] :: string list)"
    by (simp_all add: initial_ai_state)
  have ai: "AI_MODE (initial_state None (Some ''true'')) \<and>
      cloudProviders aiConfig = Some [''aws'', ''azure'', ''gcp'']"
    by (simp add: initial_ai_state aiConfig_fields)
  have u: "usage_lines (js_times (?r 9) 100) (js_times (?r (9 + 1)) 100) (js_times (?r (9 + 2)) 100) (alertThreshold aiConfig) =
      [Resource_usage, Cpu (175 / 2), Memory (175 / 2), Disk (175 / 2), ALERT, Auto_scaling_triggered]"
    by (simp add: usage_lines_def constant_source_def values_seven_eighths toFixed_examples
        aiConfig_fields)
  have f: "forecast_lines (forecast_at ?r (9 + 3)) (alertThreshold aiConfig) =
      [Predictive_analysis, Analyzing_trends, Forecast_cpu (175 / 2) (385 / 4),
         Forecast_memory (175 / 2) (385 / 4),
       Forecast_traffic 875 (385 / 4), Predictive_alert]"
    by (simp add: forecast_lines_def forecast_at_def constant_source_def values_seven_eighths
        toFixed_examples aiConfig_fields)
  from ai_check_samples_then_evaluates [OF initial_ai_state(1) [of None] j(1),
      where rnd = ?r and now = 30000] ai
  have 1: "\<exists>s' pre. checkSystemHealth ?r 30000 (initial_state None (Some ''true'')) = Inr s' \<and>
      randoms s' = 16 \<and>
      console s' = pre @
        [Resource_usage, Cpu (175 / 2), Memory (175 / 2), Disk (175 / 2), ALERT, Auto_scaling_triggered,
         Predictive_analysis, Analyzing_trends, Forecast_cpu (175 / 2) (385 / 4),
         Forecast_memory (175 / 2) (385 / 4),
         Forecast_traffic 875 (385 / 4), Predictive_alert] \<and>
      Resource_usage \<notin> set pre"
    unfolding u f initial_ai_state(3,4) by auto
  from ai_check_samples_then_evaluates [OF initial_basic_state(1) j(2),
      where rnd = ?r and now = 30000] initial_basic_state(2)
  have 2: "\<exists>s'. checkSystemHealth ?r 30000 (initial_state None None) = Inr s' \<and>
      randoms s' = 0 \<and>
      console s' =
        [Basic_header 30000, Cpu_normal, Memory_normal, Disk_adequate, Status_HEALTHY]"
    unfolding initial_ai_state(3,4) by (auto simp: basic_lines_def production_fields)
  from 1 2 show ?thesis by blast
qed

text \<open>
  C6. When the script has started: its output holds exactly one health check, made at time
  0, before any timer fires; at every time \<open>n\<close> the health checks made so far are those at
  \<open>0\<close>, \<open>T\<close>, \<open>2T\<close>, ... up to \<open>n\<close>, where \<open>T\<close> is the delay of the first timer, which is
  \<open>config.interval\<close> when that is a number; and the number of retrainings so far is
  \<open>n div 120000\<close> in the AI mode, whatever \<open>T\<close> is, and 0 otherwise.
\<close>

theorem scheduler_ticks:
  assumes "main rnd NODE_ENV AI_MODE_var = Inr s0"
  shows "\<exists>c T. config s0 = Some c \<and> T = timer_delay (interval c) \<and>
    (\<forall>d. interval c = Some d \<longrightarrow> T = d) \<and>
    tick_times (console s0) = [0] \<and> count_list (console s0) Retraining = 0 \<and>
    (\<forall>n. \<exists>s. run_until rnd n s0 = Inr s \<and>
       tick_times (console s) = map (\<lambda>k. k * T) [0..<Suc (n div T)] \<and>
       count_list (console s) Retraining =
         (if AI_MODE_of AI_MODE_var then n div 120000 else 0))"
proof -
  from main_started [OF assms] obtain c where c:
    "select_config (AI_MODE_of AI_MODE_var) (ENV_of NODE_ENV) = Some c" "started c s0"
    "AI_MODE s0 = AI_MODE_of AI_MODE_var"
    "tick_times (console s0) = [0]" "count_list (console s0) Retraining = 0"
    by blast
  let ?T = "timer_delay (interval c)"
  have cfg: "config s0 = Some c"
    using c(2) by (simp add: started_def)
  have delay: "\<forall>d. interval c = Some d \<longrightarrow> ?T = d"
    using select_config_cases [OF c(1)] timer_delay_of_config by blast
  have run: "\<exists>s. run_until rnd n s0 = Inr s \<and>
       tick_times (console s) = map (\<lambda>k. k * ?T) [0..<Suc (n div ?T)] \<and>
       count_list (console s) Retraining =
         (if AI_MODE_of AI_MODE_var then n div 120000 else 0)" for n
  proof -
    have "map (\<lambda>k. k * ?T) [0..<Suc (n div ?T)] =
        [0] @ map (\<lambda>k. k * ?T) [1..<Suc (n div ?T)]"
      by (simp add: upt_conv_Cons del: upt_Suc)
    with run_until_started [OF c(2), of rnd n] c(3,4,5) show ?thesis
      by auto
  qed
  from cfg delay c(4,5) run show ?thesis by blast
qed

text \<open>
  The mode development until 12 seconds, and the AI mode until 250 seconds.
\<close>

theorem scheduler_witness:
  "(\<exists>s0 s. main (constant_source (1 / 2)) (Some ''development'') None = Inr s0 \<and>
      tick_times (console s0) = [0] \<and>
      run_until (constant_source (1 / 2)) 12000 s0 = Inr s \<and>
      tick_times (console s) = [0, 5000, 10000] \<and>
      count_list (console s) Retraining = 0) \<and>
   (\<exists>s0 s. main (constant_source (1 / 2)) None (Some ''true'') = Inr s0 \<and>
      tick_times (console s0) = [0] \<and>
      run_until (constant_source (1 / 2)) 250000 s0 = Inr s \<and>
      tick_times (console s) =
        [0, 30000, 60000, 90000, 120000, 150000, 180000, 210000, 240000] \<and>
      count_list (console s) Retraining = 2)"
proof -
  let ?r = "constant_source (1 / 2)"
  have 1: "\<exists>s0 s. main ?r (Some ''development'') None = Inr s0 \<and>
      tick_times (console s0) = [0] \<and> run_until ?r 12000 s0 = Inr s \<and>
      tick_times (console s) = [0, 5000, 10000] \<and> count_list (console s) Retraining = 0"
  proof -
    from main_succeeds [OF selected_examples(1), of ?r] obtain s0 where
      s0: "main ?r (Some ''development'') None = Inr s0" "config s0 = Some development"
      by blast
    from scheduler_ticks [OF s0(1)] obtain c T where
      ct: "config s0 = Some c" "\<forall>d. interval c = Some d \<longrightarrow> T = d"
      "tick_times (console s0) = [0]"
      "\<forall>n. \<exists>s. run_until ?r n s0 = Inr s \<and>
         tick_times (console s) = map (\<lambda>k. k * T) [0..<Suc (n div T)] \<and>
         count_list (console s) Retraining = (if AI_MODE_of None then n div 120000 else 0)"
      by blast
    from ct(1) s0(2) have "c = development" by simp
    with ct(2) have T: "T = 5000"
      by (simp add: development_fields)
    from ct(4) obtain s where s: "run_until ?r 12000 s0 = Inr s"
      "tick_times (console s) = map (\<lambda>k. k * T) [0..<Suc (12000 div T)]"
      "count_list (console s) Retraining = (if AI_MODE_of None then 12000 div 120000 else 0)"
      by blast
    have "tick_times (console s) = [0, 5000, 10000]"
      unfolding s(2) T by (simp add: upt_rec)
    moreover have "count_list (console s) Retraining = 0"
      unfolding s(3) by simp
    ultimately show ?thesis
      using s0(1) ct(3) s(1) by blast
  qed
  have 2: "\<exists>s0 s. main ?r None (Some ''true'') = Inr s0 \<and>
      tick_times (console s0) = [0] \<and> run_until ?r 250000 s0 = Inr s \<and>
      tick_times (console s) =
        [0, 30000, 60000, 90000, 120000, 150000, 180000, 210000, 240000] \<and>
      count_list (console s) Retraining = 2"
  proof -
    from main_succeeds [OF selected_examples(2), of ?r] obtain s0 where
      s0: "main ?r None (Some ''true'') = Inr s0" "config s0 = Some aiConfig"
      by blast
    from scheduler_ticks [OF s0(1)] obtain c T where
      ct: "config s0 = Some c" "\<forall>d. interval c = Some d \<longrightarrow> T = d"
      "tick_times (console s0) = [0]"
      "\<forall>n. \<exists>s. run_until ?r n s0 = Inr s \<and>
         tick_times (console s) = map (\<lambda>k. k * T) [0..<Suc (n div T)] \<and>
         count_list (console s) Retraining =
           (if AI_MODE_of (Some ''true'') then n div 120000 else 0)"
      by blast
    from ct(1) s0(2) have "c = aiConfig" by simp
    with ct(2) have T: "T = 30000"
      by (simp add: aiConfig_fields)
    from ct(4) obtain s where s: "run_until ?r 250000 s0 = Inr s"
      "tick_times (console s) = map (\<lambda>k. k * T) [0..<Suc (250000 div T)]"
      "count_list (console s) Retraining =
         (if AI_MODE_of (Some ''true'') then 250000 div 120000 else 0)"
      by blast
    have "tick_times (console s) =
        [0, 30000, 60000, 90000, 120000, 150000, 180000, 210000, 240000]"
      unfolding s(2) T by (simp add: upt_rec)
    moreover have "count_list (console s) Retraining = 2"
      unfolding s(3) by (simp add: AI_MODE_of_def)
    ultimately show ?thesis
      using s0(1) ct(3) s(1) by blast
  qed
  from 1 2 show ?thesis by blast
qed

text \<open>
  C9. When the script has started, its configuration is the one selected at line 41, an
  object \<open>c\<close>. At every later time \<open>n\<close> the run has not failed, \<open>config\<close> is still \<open>c\<close>, the globals
  \<open>ENV\<close> and \<open>AI_MODE\<close> are unchanged, and the timers are those set at the start, the first
  with the delay \<open>interval c\<close>. A health check made then leaves \<open>config\<close> as it is, and in the AI
  mode both its alert and its predictive alert compare with \<open>alertThreshold c\<close>.
\<close>

theorem configuration_is_fixed:
  assumes "main rnd NODE_ENV AI_MODE_var = Inr s0"
  shows "\<exists>c. select_config (AI_MODE_of AI_MODE_var) (ENV_of NODE_ENV) = Some c \<and>
    config s0 = Some c \<and>
    (\<forall>n. \<exists>s. run_until rnd n s0 = Inr s \<and> config s = Some c \<and> ENV s = ENV s0 \<and>
       AI_MODE s = AI_MODE s0 \<and>
       timers s = (CheckSystemHealth, interval c) #
                  (if AI_MODE s0 then [(Retrain, Some 120000)] else []) \<and>
       (\<forall>now. \<exists>s' out. checkSystemHealth rnd now s = Inr s' \<and>
          console s' = console s @ out \<and> config s' = Some c \<and>
          (AI_MODE s0 \<longrightarrow>
             (ALERT \<in> set out \<longleftrightarrow>
                js_gt (max (js_times (rnd (randoms s + 9)) 100)
                         (max (js_times (rnd (randoms s + 10)) 100) (js_times (rnd (randoms s + 11)) 100)))
                  (alertThreshold c)) \<and>
             (Predictive_alert \<in> set out \<longleftrightarrow>
                js_gt (js_times (rnd (randoms s + 12)) 100) (alertThreshold c)))))"
proof -
  from main_started [OF assms] obtain c where c:
    "select_config (AI_MODE_of AI_MODE_var) (ENV_of NODE_ENV) = Some c" "started c s0"
    by blast
  have cfg: "config s0 = Some c"
    using c(2) by (simp add: started_def)
  have run: "\<exists>s. run_until rnd n s0 = Inr s \<and> config s = Some c \<and> ENV s = ENV s0 \<and>
       AI_MODE s = AI_MODE s0 \<and>
       timers s = (CheckSystemHealth, interval c) #
                  (if AI_MODE s0 then [(Retrain, Some 120000)] else []) \<and>
       (\<forall>now. \<exists>s' out. checkSystemHealth rnd now s = Inr s' \<and>
          console s' = console s @ out \<and> config s' = Some c \<and>
          (AI_MODE s0 \<longrightarrow>
             (ALERT \<in> set out \<longleftrightarrow>
                js_gt (max (js_times (rnd (randoms s + 9)) 100)
                         (max (js_times (rnd (randoms s + 10)) 100) (js_times (rnd (randoms s + 11)) 100)))
                  (alertThreshold c)) \<and>
             (Predictive_alert \<in> set out \<longleftrightarrow>
                js_gt (js_times (rnd (randoms s + 12)) 100) (alertThreshold c))))" for n
  proof -
    from run_until_started [OF c(2), of rnd n] obtain s where s:
      "run_until rnd n s0 = Inr s" "started c s" "AI_MODE s = AI_MODE s0" "ENV s = ENV s0"
      by blast
    have frame: "config s = Some c"
      "timers s = (CheckSystemHealth, interval c) #
                  (if AI_MODE s0 then [(Retrain, Some 120000)] else [])"
      using s(2,3) by (simp_all add: started_def)
    have check: "\<exists>s' out. checkSystemHealth rnd now s = Inr s' \<and>
          console s' = console s @ out \<and> config s' = Some c \<and>
          (AI_MODE s0 \<longrightarrow>
             (ALERT \<in> set out \<longleftrightarrow>
                js_gt (max (js_times (rnd (randoms s + 9)) 100)
                         (max (js_times (rnd (randoms s + 10)) 100) (js_times (rnd (randoms s + 11)) 100)))
                  (alertThreshold c)) \<and>
             (Predictive_alert \<in> set out \<longleftrightarrow>
                js_gt (js_times (rnd (randoms s + 12)) 100) (alertThreshold c)))" for now
    proof (cases "AI_MODE s0")
      case True
      let ?out = "ai_lines rnd now (randoms s) c [''aws'', ''azure'', ''gcp'']"
      have "checkSystemHealth rnd now s = Inr (emit ?out 16 s)"
        using s(2,3) True by (simp add: checkSystemHealth_started_ai)
      moreover have "ALERT \<in> set ?out \<longleftrightarrow>
          js_gt (max (js_times (rnd (randoms s + 9)) 100)
                   (max (js_times (rnd (randoms s + 10)) 100) (js_times (rnd (randoms s + 11)) 100)))
            (alertThreshold c)"
        by (simp add: ALERT_in_ai_lines ac_simps)
      moreover have "Predictive_alert \<in> set ?out \<longleftrightarrow>
          js_gt (js_times (rnd (randoms s + 12)) 100) (alertThreshold c)"
        by (simp add: Predictive_alert_in_ai_lines ac_simps)
      ultimately show ?thesis
        using frame(1) by (intro exI [of _ "emit ?out 16 s"] exI [of _ ?out]) simp
    next
      case False
      have "checkSystemHealth rnd now s = Inr (emit (basic_lines now c) 0 s)"
        using s(3) False frame(1)
        by (simp add: checkSystemHealth_def monitorBasicHealth_emit)
      then show ?thesis
        using False frame(1)
        by (intro exI [of _ "emit (basic_lines now c) 0 s"] exI [of _ "basic_lines now c"]) simp
    qed
    from s(1,3,4) frame check show ?thesis by blast
  qed
  from c(1) cfg run show ?thesis by blast
qed

text \<open>
  The AI mode, 30 seconds after the start.
\<close>

theorem configuration_witness:
  "\<exists>s0 s. main (constant_source (3 / 4)) None (Some ''true'') = Inr s0 \<and>
     config s0 = Some aiConfig \<and>
     run_until (constant_source (3 / 4)) 30000 s0 = Inr s \<and> config s = Some aiConfig \<and>
     timers s = [(CheckSystemHealth, Some 30000), (Retrain, Some 120000)]"
proof -
  let ?r = "constant_source (3 / 4)"
  from main_succeeds [OF selected_examples(2), of ?r] obtain s0 where
    s0: "main ?r None (Some ''true'') = Inr s0" "config s0 = Some aiConfig"
    by blast
  have ai: "AI_MODE s0"
    using main_started [OF s0(1)] by (auto simp: AI_MODE_of_def)
  from configuration_is_fixed [OF s0(1)] obtain c where
    c: "config s0 = Some c"
    "\<forall>n. \<exists>s. run_until ?r n s0 = Inr s \<and> config s = Some c \<and>
       timers s = (CheckSystemHealth, interval c) #
                  (if AI_MODE s0 then [(Retrain, Some 120000)] else [])"
    by blast
  from c(1) s0(2) have "c = aiConfig" by simp
  with c(2) ai obtain s where "run_until ?r 30000 s0 = Inr s" "config s = Some aiConfig"
    "timers s = [(CheckSystemHealth, Some 30000), (Retrain, Some 120000)]"
    by (auto simp: aiConfig_fields)
  with s0 show ?thesis by blast
qed

end
